theory Spec2Isabelle
  imports Main "HOL-Library.Word"
begin

section \<open>Go strings and the library functions the moderator calls\<close>

text \<open>
  A Go string is a sequence of bytes, and \<open>len\<close> counts bytes. It is modelled as
  \<^typ>\<open>string\<close>, a list of 8-bit characters; \<open>byte\<close> reads one of them as a number.
\<close>

definition byte :: "char \<Rightarrow> nat" where
  "byte c = of_char c"

text \<open>
  \<open>strings.Split(s, sep)\<close> for a separator of one byte, which is how the program calls it:
  as long as the separator occurs, the text before its first occurrence is the next
  element and the scan goes on behind it; what is left at the end is the last element.
\<close>

function Split :: "string \<Rightarrow> char \<Rightarrow> string list" where
  "Split s sep =
     (if sep \<in> set s
      then takeWhile (\<lambda>c. c \<noteq> sep) s # Split (tl (dropWhile (\<lambda>c. c \<noteq> sep) s)) sep
      else [s])"
  by pat_completeness auto
termination
proof (relation "measure (\<lambda>(s, sep). length s)")
  show "wf (measure (\<lambda>(s, sep). length s))" by simp
next
  fix s :: string and sep :: char
  assume "sep \<in> set s"
  then have "dropWhile (\<lambda>c. c \<noteq> sep) s \<noteq> []" by simp
  then have "length (tl (dropWhile (\<lambda>c. c \<noteq> sep) s)) < length (dropWhile (\<lambda>c. c \<noteq> sep) s)"
    by simp
  also have "\<dots> \<le> length s" by (rule length_dropWhile_le)
  finally show "((tl (dropWhile (\<lambda>c. c \<noteq> sep) s), sep), (s, sep)) \<in> measure (\<lambda>(s, sep). length s)"
    by simp
qed

declare Split.simps [simp del]

text \<open>\<open>strings.Join(elems, sep)\<close>: nothing for no element, the element itself for one.\<close>

fun Join :: "string list \<Rightarrow> string \<Rightarrow> string" where
  "Join [] sep = []"
| "Join [e] sep = e"
| "Join (e # es) sep = e @ sep @ Join es sep"

subsection \<open>UTF-8, as package \<open>unicode/utf8\<close> reads and writes it\<close>

definition RuneError :: nat where
  "RuneError = 0xFFFD"

text \<open>
  \<open>utf8.DecodeRuneInString\<close>: the first rune of the string and its width in bytes. A byte
  that does not start a well-formed sequence (a stray continuation byte, an overlong or
  truncated form, a surrogate, a value above U+10FFFF) is \<open>RuneError\<close> of width 1.
\<close>

fun DecodeRuneInString :: "string \<Rightarrow> nat \<times> nat" where
  "DecodeRuneInString [] = (RuneError, 0)"
| "DecodeRuneInString (c0 # rest) =
     (let s0 = byte c0 in
      if s0 < 0x80 then (s0, 1)
      else if s0 < 0xC2 \<or> 0xF4 < s0 then (RuneError, 1)
      else
        let sz = (if s0 < 0xE0 then 2 else if s0 < 0xF0 then 3 else (4::nat));
            lo = (if s0 = 0xE0 then 0xA0 else if s0 = 0xF0 then 0x90 else 0x80);
            hi = (if s0 = 0xED then 0x9F else if s0 = 0xF4 then 0x8F else 0xBF)
        in
        if Suc (length rest) < sz then (RuneError, 1)
        else
          let b1 = byte (rest ! 0) in
          if b1 < lo \<or> hi < b1 then (RuneError, 1)
          else if sz \<le> 2 then ((s0 mod 0x20) * 0x40 + b1 mod 0x40, 2)
          else
            let b2 = byte (rest ! 1) in
            if b2 < 0x80 \<or> 0xBF < b2 then (RuneError, 1)
            else if sz \<le> 3 then ((s0 mod 0x10) * 0x1000 + (b1 mod 0x40) * 0x40 + b2 mod 0x40, 3)
            else
              let b3 = byte (rest ! 2) in
              if b3 < 0x80 \<or> 0xBF < b3 then (RuneError, 1)
              else ((s0 mod 0x08) * 0x40000 + (b1 mod 0x40) * 0x1000
                      + (b2 mod 0x40) * 0x40 + b3 mod 0x40, 4))"

lemma DecodeRuneInString_width:
  "s \<noteq> [] \<Longrightarrow> 1 \<le> snd (DecodeRuneInString s)"
  by (cases s) (simp_all add: Let_def)

text \<open>The runes a \<open>for _, c := range s\<close> loop visits.\<close>

function runes :: "string \<Rightarrow> nat list" where
  "runes s =
     (if s = [] then []
      else fst (DecodeRuneInString s) # runes (drop (snd (DecodeRuneInString s)) s))"
  by pat_completeness auto
termination
proof (relation "measure length")
  show "wf (measure length)" by simp
next
  fix s :: string
  assume "s \<noteq> []"
  with DecodeRuneInString_width [of s]
  show "(drop (snd (DecodeRuneInString s)) s, s) \<in> measure length"
    by (cases s) simp_all
qed

declare runes.simps [simp del]

text \<open>\<open>utf8.RuneCountInString\<close>: the number of runes of a string, its length in characters.\<close>

definition RuneCountInString :: "string \<Rightarrow> nat" where
  "RuneCountInString s = length (runes s)"

text \<open>
  \<open>utf8.AppendRune\<close>, which \<open>Builder.WriteRune\<close> calls: a surrogate or a value above
  U+10FFFF is written as \<open>RuneError\<close>.
\<close>

definition EncodeRune :: "nat \<Rightarrow> string" where
  "EncodeRune r =
     (if r \<le> 0x7F then [char_of r]
      else if r \<le> 0x7FF then [char_of (0xC0 + r div 0x40), char_of (0x80 + r mod 0x40)]
      else if 0x10FFFF < r \<or> (0xD800 \<le> r \<and> r \<le> 0xDFFF)
        then [char_of (0xEF::nat), char_of (0xBF::nat), char_of (0xBD::nat)]
      else if r \<le> 0xFFFF
        then [char_of (0xE0 + r div 0x1000), char_of (0x80 + (r div 0x40) mod 0x40),
              char_of (0x80 + r mod 0x40)]
      else [char_of (0xF0 + r div 0x40000), char_of (0x80 + (r div 0x1000) mod 0x40),
            char_of (0x80 + (r div 0x40) mod 0x40), char_of (0x80 + r mod 0x40)])"

text \<open>
  \<open>strings.Map(mapping, s)\<close>: every rune of \<open>s\<close> is replaced by its image, written in
  UTF-8; an ill-formed byte counts as \<open>RuneError\<close>. (The library drops a rune whose image
  is negative; the images here are never negative.)
\<close>

definition Map :: "(nat \<Rightarrow> nat) \<Rightarrow> string \<Rightarrow> string" where
  "Map mapping s = concat (map (\<lambda>c. EncodeRune (mapping c)) (runes s))"

subsection \<open>Lower case\<close>

text \<open>
  \<open>unicode.ToLower\<close>: on ASCII the 26 capital letters move by 32; above ASCII the library
  looks the rune up in the case tables of its Unicode version. Those tables are the
  parameter \<open>tbl\<close> of everything below, and nothing is assumed about them.
\<close>

definition unicode_ToLower :: "(nat \<Rightarrow> nat) \<Rightarrow> nat \<Rightarrow> nat" where
  "unicode_ToLower tbl r =
     (if r \<le> 0x7F then (if 0x41 \<le> r \<and> r \<le> 0x5A then r + 0x20 else r) else tbl r)"

definition isUpper :: "char \<Rightarrow> bool" where
  "isUpper c = (0x41 \<le> byte c \<and> byte c \<le> 0x5A)"

definition lowerByte :: "char \<Rightarrow> char" where
  "lowerByte c = (if isUpper c then char_of (byte c + 0x20) else c)"

text \<open>
  \<open>strings.ToLower\<close>: a string of ASCII bytes only is returned as it is when it has no
  capital letter and with its capital letters lowered otherwise; any other string goes
  through \<open>strings.Map(unicode.ToLower, s)\<close>.
\<close>

definition ToLower :: "(nat \<Rightarrow> nat) \<Rightarrow> string \<Rightarrow> string" where
  "ToLower tbl s =
     (if list_all (\<lambda>c. byte c < 0x80) s
      then (if list_ex isUpper s then map lowerByte s else s)
      else Map (unicode_ToLower tbl) s)"

section \<open>The content moderator\<close>

definition profaneWords :: "string list" where
  "profaneWords = [''kerfuffle'', ''sharbert'', ''fornax'']"

text \<open>
  The inner loop of \<open>cleanProfanity\<close> runs through the profane words still to compare; at
  the first one equal to \<open>wordLower\<close> it overwrites \<open>words[i]\<close> and breaks.
\<close>

fun innerLoop :: "string \<Rightarrow> nat \<Rightarrow> string list \<Rightarrow> string list \<Rightarrow> string list" where
  "innerLoop wordLower i [] words = words"
| "innerLoop wordLower i (profane # rest) words =
     (if wordLower = profane then words[i := ''****'']
      else innerLoop wordLower i rest words)"

lemma length_innerLoop [simp]: "length (innerLoop wordLower i ps words) = length words"
  by (induction ps) simp_all

text \<open>The outer loop, \<open>for i, word := range words\<close>, from index \<open>i\<close> on.\<close>

function outerLoop :: "(nat \<Rightarrow> nat) \<Rightarrow> nat \<Rightarrow> string list \<Rightarrow> string list" where
  "outerLoop tbl i words =
     (if i < length words
      then outerLoop tbl (Suc i) (innerLoop (ToLower tbl (words ! i)) i profaneWords words)
      else words)"
  by pat_completeness auto
termination
  by (relation "measure (\<lambda>(tbl, i, words). length words - i)") auto

declare outerLoop.simps [simp del]

definition cleanProfanity :: "(nat \<Rightarrow> nat) \<Rightarrow> string \<Rightarrow> string" where
  "cleanProfanity tbl input = Join (outerLoop tbl 0 (Split input CHR '' '')) '' ''"

section \<open>The server: its data\<close>

text \<open>
  A \<open>uuid.UUID\<close> is sixteen bytes; a \<open>time.Time\<close> is only ever copied, an integer stands
  for it.
\<close>

type_synonym UUID = "128 word"
type_synonym Time = int

record ErrorResponse =
  Error :: string

record User =
  User_ID :: UUID
  User_CreatedAt :: Time
  User_UpdatedAt :: Time
  User_Email :: string

record UserRequest =
  UserRequest_Email :: string

record Chirp =
  Chirp_ID :: UUID
  Chirp_CreatedAt :: Time
  Chirp_UpdatedAt :: Time
  Chirp_Body :: string
  Chirp_UserID :: UUID

record CreateChirpRequest =
  CreateChirpRequest_Body :: string
  CreateChirpRequest_UserID :: UUID

subsection \<open>Package \<open>database\<close>, as the handlers use it\<close>

text \<open>
  The generated package \<open>internal/database\<close> is not among the sources. Its records have
  the fields the handlers read and write. Its queries are a parameter: five functions on
  a store of any type \<open>'db\<close>, each returning its result and the store after the call.
  An error is \<open>sql.ErrNoRows\<close> or anything else.
\<close>

record database_User =
  database_User_ID :: UUID
  database_User_CreatedAt :: Time
  database_User_UpdatedAt :: Time
  database_User_Email :: string

record database_Chirp =
  database_Chirp_ID :: UUID
  database_Chirp_CreatedAt :: Time
  database_Chirp_UpdatedAt :: Time
  database_Chirp_Body :: string
  database_Chirp_UserID :: UUID

record CreateUserParams =
  CreateUserParams_ID :: UUID
  CreateUserParams_Email :: string
  CreateUserParams_CreatedAt :: Time
  CreateUserParams_UpdatedAt :: Time

record CreateChirpParams =
  CreateChirpParams_ID :: UUID
  CreateChirpParams_CreatedAt :: Time
  CreateChirpParams_UpdatedAt :: Time
  CreateChirpParams_Body :: string
  CreateChirpParams_UserID :: UUID

datatype db_error = ErrNoRows | OtherError string

record 'db Queries =
  CreateUser :: "'db \<Rightarrow> CreateUserParams \<Rightarrow> (db_error + database_User) \<times> 'db"
  DeleteAllUsers :: "'db \<Rightarrow> db_error option \<times> 'db"
  CreateChirp :: "'db \<Rightarrow> CreateChirpParams \<Rightarrow> (db_error + database_Chirp) \<times> 'db"
  GetChirps :: "'db \<Rightarrow> (db_error + database_Chirp list) \<times> 'db"
  GetChirpByID :: "'db \<Rightarrow> UUID \<Rightarrow> (db_error + database_Chirp) \<times> 'db"

subsection \<open>Responses\<close>

text \<open>
  What \<open>json.NewEncoder(w).Encode\<close> writes for the payloads of this program, as a JSON
  value: an object has the members the struct tags name, in the order of the fields. A UUID
  and a time are written as JSON strings by their own packages; the text is left to them.
\<close>

datatype jout =
  OString string | OUUID UUID | OTime Time | OObject "(string \<times> jout) list" | OArray "jout list"

datatype payload =
  ErrorResponse_payload ErrorResponse | User_payload User | Chirp_payload Chirp
  | Chirps_payload "Chirp list"

definition Encode_Chirp :: "Chirp \<Rightarrow> jout" where
  "Encode_Chirp c =
     OObject [(''id'', OUUID (Chirp_ID c)), (''created_at'', OTime (Chirp_CreatedAt c)),
              (''updated_at'', OTime (Chirp_UpdatedAt c)), (''body'', OString (Chirp_Body c)),
              (''user_id'', OUUID (Chirp_UserID c))]"

fun Encode :: "payload \<Rightarrow> jout" where
  "Encode (ErrorResponse_payload e) = OObject [(''error'', OString (Error e))]"
| "Encode (User_payload u) =
     OObject [(''id'', OUUID (User_ID u)), (''created_at'', OTime (User_CreatedAt u)),
              (''updated_at'', OTime (User_UpdatedAt u)), (''email'', OString (User_Email u))]"
| "Encode (Chirp_payload c) = Encode_Chirp c"
| "Encode (Chirps_payload cs) = OArray (map Encode_Chirp cs)"

datatype written = JSON jout | Text string | Nothing

record response =
  Header_ContentType :: "string option"
  StatusCode :: nat
  Written :: written

definition respondWithJSON :: "nat \<Rightarrow> payload \<Rightarrow> response" where
  "respondWithJSON code p =
     \<lparr>Header_ContentType = Some ''application/json'', StatusCode = code,
      Written = JSON (Encode p)\<rparr>"

definition respondWithError :: "nat \<Rightarrow> string \<Rightarrow> response" where
  "respondWithError code msg = respondWithJSON code (ErrorResponse_payload \<lparr>Error = msg\<rparr>)"

subsection \<open>Requests\<close>

text \<open>
  The body of a request as \<open>json.Decoder.Decode\<close> meets it: nothing to read, text that
  is not JSON, or a first JSON value (what follows it is not read).
\<close>

datatype json =
  JNull | JBool bool | JNumber string | JString string | JArray "json list"
  | JObject "(string \<times> json) list"

datatype reqBody = NoValue | NotJSON | Value json

datatype decode_error = EOF | SyntaxError | UnmarshalTypeError | UnmarshalTextError

text \<open>The patterns registered in \<open>main\<close>; \<open>no_pattern\<close> when the mux finds none.\<close>

datatype pattern =
  GET_api_healthz | POST_api_chirps | GET_api_chirps | GET_api_chirps_chirpID
  | GET_admin_metrics | POST_admin_reset | POST_api_users | assets_subtree | app_subtree
  | no_pattern

text \<open>
  A request: the pattern the mux matched it with, its path, the value of the wildcard
  \<open>chirpID\<close>, its body, and what \<open>uuid.New()\<close> and the two calls of \<open>time.Now()\<close> return
  while it is handled.
\<close>

record Request =
  Pattern :: pattern
  URL_Path :: string
  PathValue_chirpID :: string
  Body :: reqBody
  uuid_New :: UUID
  time_Now_1 :: Time
  time_Now_2 :: Time

text \<open>
  The libraries outside the repository that are left open: the case tables of package
  \<open>unicode\<close> above ASCII (lower case, and the least rune of a simple-folding orbit),
  \<open>uuid.Parse\<close>, and \<open>http.FileServer\<close> for a root directory and a path.
\<close>

record library =
  CaseLower :: "nat \<Rightarrow> nat"
  CaseFold :: "nat \<Rightarrow> nat"
  uuid_Parse :: "string \<Rightarrow> UUID option"
  FileServer :: "string \<Rightarrow> string \<Rightarrow> response"

subsection \<open>Decoding a request body, as \<open>encoding/json\<close> does into these two structs\<close>

text \<open>
  A member of a JSON object belongs to the field of the same name or, failing that, to
  the field whose name is the same up to simple case folding: ASCII letters fold to their
  capitals, a rune above ASCII to what the tables say.
\<close>

definition foldRune :: "(nat \<Rightarrow> nat) \<Rightarrow> nat \<Rightarrow> nat" where
  "foldRune fld r = (if 0x61 \<le> r \<and> r \<le> 0x7A then r - 0x20 else if r < 0x80 then r else fld r)"

definition foldName :: "(nat \<Rightarrow> nat) \<Rightarrow> string \<Rightarrow> nat list" where
  "foldName fld s = map (foldRune fld) (runes s)"

definition fieldMatches :: "(nat \<Rightarrow> nat) \<Rightarrow> string \<Rightarrow> string \<Rightarrow> bool" where
  "fieldMatches fld key name = (key = name \<or> foldName fld key = foldName fld name)"

text \<open>The decoder keeps the first error of a wrong type and goes on.\<close>

definition saveError :: "decode_error option \<Rightarrow> decode_error \<Rightarrow> decode_error option" where
  "saveError saved e = (case saved of None \<Rightarrow> Some e | Some e0 \<Rightarrow> Some e0)"

text \<open>
  The members of an object, one after the other, into a \<open>UserRequest\<close>: a string is stored
  in \<open>Email\<close>, \<open>null\<close> leaves it, any other value is an error of type; a member that
  matches no field is skipped.
\<close>

fun object_UserRequest ::
  "(nat \<Rightarrow> nat) \<Rightarrow> (string \<times> json) list \<Rightarrow> UserRequest \<Rightarrow> decode_error option
     \<Rightarrow> UserRequest \<times> decode_error option" where
  "object_UserRequest fld [] v saved = (v, saved)"
| "object_UserRequest fld ((key, item) # rest) v saved =
     (if fieldMatches fld key ''email''
      then (case item of
              JString s \<Rightarrow> object_UserRequest fld rest (v\<lparr>UserRequest_Email := s\<rparr>) saved
            | JNull \<Rightarrow> object_UserRequest fld rest v saved
            | _ \<Rightarrow> object_UserRequest fld rest v (saveError saved UnmarshalTypeError))
      else object_UserRequest fld rest v saved)"

text \<open>
  \<open>decoder.Decode(&userReq)\<close> on a fresh \<open>UserRequest\<close>, which it fills in place: the
  result is the struct as the call leaves it and the error, if any. The end of the input
  and text that is not JSON are errors; \<open>null\<close> changes nothing; an object is decoded
  member by member; any other value is an error of type.
\<close>

definition Decode_UserRequest :: "library \<Rightarrow> reqBody \<Rightarrow> UserRequest \<times> decode_error option" where
  "Decode_UserRequest lib b =
     (case b of
        NoValue \<Rightarrow> (\<lparr>UserRequest_Email = []\<rparr>, Some EOF)
      | NotJSON \<Rightarrow> (\<lparr>UserRequest_Email = []\<rparr>, Some SyntaxError)
      | Value JNull \<Rightarrow> (\<lparr>UserRequest_Email = []\<rparr>, None)
      | Value (JObject members) \<Rightarrow>
          object_UserRequest (CaseFold lib) members \<lparr>UserRequest_Email = []\<rparr> None
      | Value _ \<Rightarrow> (\<lparr>UserRequest_Email = []\<rparr>, Some UnmarshalTypeError))"

text \<open>
  The same into a \<open>CreateChirpRequest\<close>. \<open>UserID\<close> is a \<open>uuid.UUID\<close>, which reads itself from
  the text of a JSON string; when that fails the decoding stops there with the error, and
  the fields stored before stay.
\<close>

fun object_CreateChirpRequest ::
  "library \<Rightarrow> (string \<times> json) list \<Rightarrow> CreateChirpRequest \<Rightarrow> decode_error option
     \<Rightarrow> CreateChirpRequest \<times> decode_error option" where
  "object_CreateChirpRequest lib [] v saved = (v, saved)"
| "object_CreateChirpRequest lib ((key, item) # rest) v saved =
     (if fieldMatches (CaseFold lib) key ''body''
      then (case item of
              JString s \<Rightarrow>
                object_CreateChirpRequest lib rest (v\<lparr>CreateChirpRequest_Body := s\<rparr>) saved
            | JNull \<Rightarrow> object_CreateChirpRequest lib rest v saved
            | _ \<Rightarrow> object_CreateChirpRequest lib rest v (saveError saved UnmarshalTypeError))
      else if fieldMatches (CaseFold lib) key ''user_id''
      then (case item of
              JString s \<Rightarrow>
                (case uuid_Parse lib s of
                   None \<Rightarrow> (v, Some UnmarshalTextError)
                 | Some u \<Rightarrow>
                     object_CreateChirpRequest lib rest (v\<lparr>CreateChirpRequest_UserID := u\<rparr>) saved)
            | JNull \<Rightarrow> object_CreateChirpRequest lib rest v saved
            | _ \<Rightarrow> object_CreateChirpRequest lib rest v (saveError saved UnmarshalTypeError))
      else object_CreateChirpRequest lib rest v saved)"

definition Decode_CreateChirpRequest ::
  "library \<Rightarrow> reqBody \<Rightarrow> CreateChirpRequest \<times> decode_error option" where
  "Decode_CreateChirpRequest lib b =
     (let zero = \<lparr>CreateChirpRequest_Body = [], CreateChirpRequest_UserID = 0\<rparr> in
      case b of
        NoValue \<Rightarrow> (zero, Some EOF)
      | NotJSON \<Rightarrow> (zero, Some SyntaxError)
      | Value JNull \<Rightarrow> (zero, None)
      | Value (JObject members) \<Rightarrow> object_CreateChirpRequest lib members zero None
      | Value _ \<Rightarrow> (zero, Some UnmarshalTypeError))"

section \<open>The server: its state and its handlers\<close>

text \<open>
  What a handler does besides answering: the operations on the counter that change it,
  the queries it sends, the call of the moderator, the lines it logs.
\<close>

datatype event =
  Hits_Add "32 word" | Hits_Store "32 word"
  | Db_CreateUser CreateUserParams | Db_DeleteAllUsers | Db_CreateChirp CreateChirpParams
  | Db_GetChirps | Db_GetChirpByID UUID
  | Call_cleanProfanity string | Log_Printf string db_error

text \<open>
  \<open>apiConfig\<close>: the counter is an \<open>atomic.Int32\<close>, a 32-bit word read as a signed number;
  \<open>db\<close> is the store behind the queries. \<open>trace\<close> is not a field of the source: it
  lists, in order, what the handlers have done so far, so that "is not invoked" and
  "before" can be stated. Requests are served one after the other; the counter is the
  only state the handlers share, and its three operations are atomic.
\<close>

record 'db apiConfig =
  fileserverHits :: "32 word"
  db :: 'db
  platform :: string
  trace :: "event list"

definition effect :: "event \<Rightarrow> 'db apiConfig \<Rightarrow> 'db apiConfig" where
  "effect e cfg = cfg\<lparr>trace := trace cfg @ [e]\<rparr>"



definition fileserverHits_Store :: "32 word \<Rightarrow> 'db apiConfig \<Rightarrow> 'db apiConfig" where
  "fileserverHits_Store v cfg = effect (Hits_Store v) (cfg\<lparr>fileserverHits := v\<rparr>)"

text \<open>A query: the event is recorded, the query runs on the store and leaves a new store.\<close>

definition db_call :: "('db \<Rightarrow> 'a \<times> 'db) \<Rightarrow> event \<Rightarrow> 'db apiConfig \<Rightarrow> 'a \<times> 'db apiConfig" where
  "db_call query e cfg =
     (case query (db cfg) of (res, db') \<Rightarrow> (res, (effect e cfg)\<lparr>db := db'\<rparr>))"









definition adminResetHandler ::
  "'db Queries \<Rightarrow> 'db apiConfig \<Rightarrow> Request \<Rightarrow> response \<times> 'db apiConfig" where
  "adminResetHandler q cfg r =
     (if platform cfg \<noteq> ''dev''
      then (respondWithError 403 ''This endpoint is only available in development'', cfg)
      else
        (case db_call (DeleteAllUsers q) Db_DeleteAllUsers (fileserverHits_Store 0 cfg) of
           (Some err, cfg') \<Rightarrow> (respondWithError 500 ''Error deleting users'', cfg')
         | (None, cfg') \<Rightarrow>
             (\<lparr>Header_ContentType = None, StatusCode = 200, Written = Nothing\<rparr>, cfg')))"

definition createUserHandler ::
  "library \<Rightarrow> 'db Queries \<Rightarrow> 'db apiConfig \<Rightarrow> Request \<Rightarrow> response \<times> 'db apiConfig" where
  "createUserHandler lib q cfg r =
     (case Decode_UserRequest lib (Body r) of
        (userReq, Some err) \<Rightarrow> (respondWithError 400 ''Invalid request payload'', cfg)
      | (userReq, None) \<Rightarrow>
          (let params = \<lparr>CreateUserParams_ID = uuid_New r,
                         CreateUserParams_Email = UserRequest_Email userReq,
                         CreateUserParams_CreatedAt = time_Now_1 r,
                         CreateUserParams_UpdatedAt = time_Now_2 r\<rparr>
           in case db_call (\<lambda>d. CreateUser q d params) (Db_CreateUser params) cfg of
                (Inl err, cfg') \<Rightarrow> (respondWithError 500 ''Error creating user'', cfg')
              | (Inr dbUser, cfg') \<Rightarrow>
                  (respondWithJSON 201
                     (User_payload \<lparr>User_ID = database_User_ID dbUser,
                                    User_CreatedAt = database_User_CreatedAt dbUser,
                                    User_UpdatedAt = database_User_UpdatedAt dbUser,
                                    User_Email = database_User_Email dbUser\<rparr>), cfg')))"

definition Chirp_of :: "database_Chirp \<Rightarrow> Chirp" where
  "Chirp_of chirp =
     \<lparr>Chirp_ID = database_Chirp_ID chirp, Chirp_CreatedAt = database_Chirp_CreatedAt chirp,
      Chirp_UpdatedAt = database_Chirp_UpdatedAt chirp, Chirp_Body = database_Chirp_Body chirp,
      Chirp_UserID = database_Chirp_UserID chirp\<rparr>"

definition createChirpHandler ::
  "library \<Rightarrow> 'db Queries \<Rightarrow> 'db apiConfig \<Rightarrow> Request \<Rightarrow> response \<times> 'db apiConfig" where
  "createChirpHandler lib q cfg r =
     (case Decode_CreateChirpRequest lib (Body r) of
        (req, Some err) \<Rightarrow> (respondWithError 400 ''Invalid request payload'', cfg)
      | (req, None) \<Rightarrow>
          if 140 < length (CreateChirpRequest_Body req)
          then (respondWithError 400 ''Chirp is too long'', cfg)
          else
            (let cleanedBody = cleanProfanity (CaseLower lib) (CreateChirpRequest_Body req);
                 cfg1 = effect (Call_cleanProfanity (CreateChirpRequest_Body req)) cfg;
                 params = \<lparr>CreateChirpParams_ID = uuid_New r,
                           CreateChirpParams_CreatedAt = time_Now_1 r,
                           CreateChirpParams_UpdatedAt = time_Now_2 r,
                           CreateChirpParams_Body = cleanedBody,
                           CreateChirpParams_UserID = CreateChirpRequest_UserID req\<rparr>
             in case db_call (\<lambda>d. CreateChirp q d params) (Db_CreateChirp params) cfg1 of
                  (Inl err, cfg2) \<Rightarrow>
                    (respondWithError 500 ''Error creating chirp'',
                     effect (Log_Printf ''Error creating chirp: %v'' err) cfg2)
                | (Inr chirp, cfg2) \<Rightarrow>
                    (respondWithJSON 201 (Chirp_payload (Chirp_of chirp)), cfg2)))"


definition getChirpByIDHandler ::
  "library \<Rightarrow> 'db Queries \<Rightarrow> 'db apiConfig \<Rightarrow> Request \<Rightarrow> response \<times> 'db apiConfig" where
  "getChirpByIDHandler lib q cfg r =
     (case uuid_Parse lib (PathValue_chirpID r) of
        None \<Rightarrow> (respondWithError 400 ''Invalid chirp ID format'', cfg)
      | Some chirpID \<Rightarrow>
          (case db_call (\<lambda>d. GetChirpByID q d chirpID) (Db_GetChirpByID chirpID) cfg of
             (Inl err, cfg') \<Rightarrow>
               if err = ErrNoRows then (respondWithError 404 ''Chirp not found'', cfg')
               else (respondWithError 500 ''Error getting chirp'',
                     effect (Log_Printf ''Error getting chirp: %v'' err) cfg')
           | (Inr chirp, cfg') \<Rightarrow>
               (respondWithJSON 200 (Chirp_payload (Chirp_of chirp)), cfg')))"

subsection \<open>The routes of \<open>main\<close>\<close>

definition NotFound :: response where
  "NotFound =
     \<lparr>Header_ContentType = Some ''text/plain; charset=utf-8'', StatusCode = 404,
      Written = Text (''404 page not found'' @ [CHR 0x0A])\<rparr>"




section \<open>A store and a library to run the server on\<close>

text \<open>
  Modelled from the spec: the Resource Store of section 4.3 (package \<open>internal/database\<close>
  is not among the sources), as two tables in memory. Creating appends the row it is
  given and returns it, \<open>deleteAllUsers\<close> empties the users, listing returns the chirps,
  and a lookup by an identifier that is absent signals not-found. It serves as a concrete
  store in the examples; the theorems hold for every store.
\<close>

record memdb =
  users :: "database_User list"
  chirps :: "database_Chirp list"

definition memQueries :: "memdb Queries" where
  "memQueries =
     \<lparr>CreateUser = (\<lambda>d p.
        (let u = \<lparr>database_User_ID = CreateUserParams_ID p,
                  database_User_CreatedAt = CreateUserParams_CreatedAt p,
                  database_User_UpdatedAt = CreateUserParams_UpdatedAt p,
                  database_User_Email = CreateUserParams_Email p\<rparr>
         in (Inr u, d\<lparr>users := users d @ [u]\<rparr>))),
      DeleteAllUsers = (\<lambda>d. (None, d\<lparr>users := []\<rparr>)),
      CreateChirp = (\<lambda>d p.
        (let c = \<lparr>database_Chirp_ID = CreateChirpParams_ID p,
                  database_Chirp_CreatedAt = CreateChirpParams_CreatedAt p,
                  database_Chirp_UpdatedAt = CreateChirpParams_UpdatedAt p,
                  database_Chirp_Body = CreateChirpParams_Body p,
                  database_Chirp_UserID = CreateChirpParams_UserID p\<rparr>
         in (Inr c, d\<lparr>chirps := chirps d @ [c]\<rparr>))),
      GetChirps = (\<lambda>d. (Inr (chirps d), d)),
      GetChirpByID = (\<lambda>d i.
        (case find (\<lambda>c. database_Chirp_ID c = i) (chirps d) of
           None \<Rightarrow> (Inl ErrNoRows, d)
         | Some c \<Rightarrow> (Inr c, d)))\<rparr>"

text \<open>A store that is out of reach: every query fails.\<close>

definition downQueries :: "memdb Queries" where
  "downQueries =
     \<lparr>CreateUser = (\<lambda>d p. (Inl (OtherError ''connection refused''), d)),
      DeleteAllUsers = (\<lambda>d. (Some (OtherError ''connection refused''), d)),
      CreateChirp = (\<lambda>d p. (Inl (OtherError ''connection refused''), d)),
      GetChirps = (\<lambda>d. (Inl (OtherError ''connection refused''), d)),
      GetChirpByID = (\<lambda>d i. (Inl (OtherError ''connection refused''), d))\<rparr>"

text \<open>
  A library for the examples: no case pairs above ASCII but the Kelvin sign U+212A, whose
  lower case is k; one UUID that parses; no files.
\<close>

definition testLibrary :: library where
  "testLibrary =
     \<lparr>CaseLower = (\<lambda>r. if r = 0x212A then 0x6B else r),
      CaseFold = (\<lambda>r. if r = 0x212A then 0x4B else r),
      uuid_Parse = (\<lambda>s. if s = ''6ba7b810-9dad-11d1-80b4-00c04fd430c8''
                           then Some 0x6ba7b8109dad11d180b400c04fd430c8 else None),
      FileServer = (\<lambda>root path. NotFound)\<rparr>"

definition testConfig :: "string \<Rightarrow> memdb apiConfig" where
  "testConfig mode =
     \<lparr>fileserverHits = 0, db = \<lparr>users = [], chirps = []\<rparr>, platform = mode, trace = []\<rparr>"

definition testRequest :: "pattern \<Rightarrow> string \<Rightarrow> reqBody \<Rightarrow> Request" where
  "testRequest pat arg b =
     \<lparr>Pattern = pat, URL_Path = arg, PathValue_chirpID = arg, Body = b,
      uuid_New = 7, time_Now_1 = 1000, time_Now_2 = 1001\<rparr>"

text \<open>A chirp in the store, for the lookups.\<close>

definition testChirp :: database_Chirp where
  "testChirp =
     \<lparr>database_Chirp_ID = 0x6ba7b8109dad11d180b400c04fd430c8, database_Chirp_CreatedAt = 10,
      database_Chirp_UpdatedAt = 11, database_Chirp_Body = ''hello'',
      database_Chirp_UserID = 7\<rparr>"

text \<open>
  An envelope with a body of 141 characters and a user identifier that is no UUID.
\<close>

definition longBadChirp :: reqBody where
  "longBadChirp =
     Value (JObject [(''body'', JString (replicate 141 CHR ''a'')),
                     (''user_id'', JString ''not-a-uuid'')])"

text \<open>The same envelope with its two members in the other order.\<close>

definition badLongChirp :: reqBody where
  "badLongChirp =
     Value (JObject [(''user_id'', JString ''not-a-uuid''),
                     (''body'', JString (replicate 141 CHR ''a''))])"

text \<open>
  The word kerfuffle written with the Kelvin sign U+212A (in UTF-8 the bytes E2 84 AA) for
  its first letter: eleven bytes, nine characters.
\<close>

definition kelvinWord :: string where
  "kelvinWord = [CHR 0xE2, CHR 0x84, CHR 0xAA] @ ''erfuffle''"

section \<open>The wording of the spec, where a claim is compared with it\<close>

text \<open>
  Section 4.2: a well-formed envelope of a user-creation request is "a structured object
  containing an email field".
\<close>

definition envelope_has_email :: "reqBody \<Rightarrow> bool" where
  "envelope_has_email b =
     (case b of Value (JObject members) \<Rightarrow> list_ex (\<lambda>m. fst m = ''email'') members
      | _ \<Rightarrow> False)"

text \<open>
  What the decoder does reject for a user-creation request: no input, text that is not
  JSON, a value that is neither an object nor \<open>null\<close>, and an object with a member for
  \<open>email\<close> whose value is neither a string nor \<open>null\<close>.
\<close>

fun string_or_null :: "json \<Rightarrow> bool" where
  "string_or_null (JString s) = True"
| "string_or_null JNull = True"
| "string_or_null v = False"

definition rejected_UserRequest :: "library \<Rightarrow> reqBody \<Rightarrow> bool" where
  "rejected_UserRequest lib b =
     (case b of
        NoValue \<Rightarrow> True
      | NotJSON \<Rightarrow> True
      | Value JNull \<Rightarrow> False
      | Value (JObject members) \<Rightarrow>
          list_ex (\<lambda>m. fieldMatches (CaseFold lib) (fst m) ''email'' \<and> \<not> string_or_null (snd m))
            members
      | Value _ \<Rightarrow> True)"

text \<open>
  The string members of an object that are stored in \<open>Email\<close>: those whose name matches
  the field and whose value is a JSON string.
\<close>

fun is_JString :: "json \<Rightarrow> bool" where
  "is_JString (JString s) = True"
| "is_JString v = False"

definition email_string :: "(nat \<Rightarrow> nat) \<Rightarrow> string \<times> json \<Rightarrow> bool" where
  "email_string fld m = (fieldMatches fld (fst m) ''email'' \<and> is_JString (snd m))"

text \<open>
  A member of a chirp envelope that gives a user identifier \<open>uuid.Parse\<close> rejects: its
  name matches \<open>user_id\<close> and its value is a JSON string that is no UUID.
\<close>

definition bad_user_id :: "library \<Rightarrow> string \<times> json \<Rightarrow> bool" where
  "bad_user_id lib m =
     (fieldMatches (CaseFold lib) (fst m) ''user_id''
      \<and> (case snd m of JString s \<Rightarrow> uuid_Parse lib s = None | _ \<Rightarrow> False))"

section \<open>Facts about splitting, joining and the loops\<close>

lemma Split_no_sep: "sep \<notin> set s \<Longrightarrow> Split s sep = [s]"
  by (subst Split.simps) simp

lemma Split_Nil: "Split [] sep = [[]]"
  by (simp add: Split_no_sep)

lemma Split_sep_Cons: "Split (sep # cs) sep = [] # Split cs sep"
  by (subst Split.simps) simp

lemma Split_not_Nil: "Split s sep \<noteq> []"
  by (subst Split.simps) simp

lemma Split_other_Cons:
  "c \<noteq> sep \<Longrightarrow> Split (c # cs) sep = (c # hd (Split cs sep)) # tl (Split cs sep)"
proof (cases "sep \<in> set cs")
  case True
  assume "c \<noteq> sep"
  with True show ?thesis
    by (subst Split.simps, subst (2) Split.simps, subst (3) Split.simps) simp
next
  case False
  assume "c \<noteq> sep"
  with False show ?thesis by (simp add: Split_no_sep)
qed

lemma Split_tokens: "t \<in> set (Split s sep) \<Longrightarrow> sep \<notin> set t"
proof (induction s arbitrary: t)
  case Nil
  then show ?case by (simp add: Split_Nil)
next
  case (Cons c cs)
  show ?case
  proof (cases "c = sep")
    case True
    with Cons show ?thesis by (auto simp: Split_sep_Cons)
  next
    case False
    have ne: "Split cs sep \<noteq> []" by (rule Split_not_Nil)
    from Cons.prems False have "t = c # hd (Split cs sep) \<or> t \<in> set (tl (Split cs sep))"
      by (simp add: Split_other_Cons)
    then show ?thesis
    proof
      assume "t = c # hd (Split cs sep)"
      moreover have "sep \<notin> set (hd (Split cs sep))"
        using Cons.IH [of "hd (Split cs sep)"] ne by simp
      ultimately show ?thesis using False by auto
    next
      assume "t \<in> set (tl (Split cs sep))"
      then have "t \<in> set (Split cs sep)" by (rule list.set_sel(2) [OF ne])
      then show ?thesis by (rule Cons.IH)
    qed
  qed
qed

lemma Join_Cons: "ws \<noteq> [] \<Longrightarrow> Join (w # ws) sep = w @ sep @ Join ws sep"
  by (cases ws) simp_all

lemma Join_Split: "Join (Split s sep) [sep] = s"
proof (induction s)
  case Nil
  then show ?case by (simp add: Split_Nil)
next
  case (Cons c cs)
  have ne: "Split cs sep \<noteq> []" by (rule Split_not_Nil)
  show ?case
  proof (cases "c = sep")
    case True
    with Cons ne show ?thesis by (simp add: Split_sep_Cons Join_Cons)
  next
    case False
    obtain w ws where sp: "Split cs sep = w # ws" using ne by (cases "Split cs sep") auto
    have "Join ((c # w) # ws) [sep] = c # Join (w # ws) [sep]" by (cases ws) simp_all
    with Cons False sp show ?thesis by (simp add: Split_other_Cons)
  qed
qed

lemma Split_append_sep:
  "sep \<notin> set w \<Longrightarrow> Split (w @ sep # rest) sep = w # Split rest sep"
proof (induction w)
  case Nil
  then show ?case by (simp add: Split_sep_Cons)
next
  case (Cons a w)
  then have "a \<noteq> sep" and "Split (w @ sep # rest) sep = w # Split rest sep" by auto
  then show ?case by (simp add: Split_other_Cons)
qed

lemma Split_Join:
  "ws \<noteq> [] \<Longrightarrow> \<forall>w\<in>set ws. sep \<notin> set w \<Longrightarrow> Split (Join ws [sep]) sep = ws"
proof (induction ws)
  case Nil
  then show ?case by simp
next
  case (Cons w ws)
  show ?case
  proof (cases ws)
    case Nil
    with Cons.prems show ?thesis by (simp add: Split_no_sep)
  next
    case (Cons v vs)
    with Cons.IH Cons.prems have "Split (Join ws [sep]) sep = ws" by simp
    moreover have "Join (w # ws) [sep] = w @ sep # Join ws [sep]" using Cons by simp
    ultimately show ?thesis using Cons.prems by (simp add: Split_append_sep)
  qed
qed

lemma length_Join:
  "length (Join ws sep) = sum_list (map length ws) + (length ws - 1) * length sep"
  by (induction ws sep rule: Join.induct) simp_all

lemma innerLoop_eq:
  "innerLoop wordLower i ps words = (if wordLower \<in> set ps then words[i := ''****''] else words)"
  by (induction ps) auto

lemma outerLoop_eq:
  "outerLoop tbl i words =
     take i words @ map (\<lambda>w. if ToLower tbl w \<in> set profaneWords then ''****'' else w) (drop i words)"
proof (induction tbl i words rule: outerLoop.induct)
  case (1 tbl i words)
  let ?m = "\<lambda>w. if ToLower tbl w \<in> set profaneWords then ''****'' else w"
  show ?case
  proof (cases "i < length words")
    case False
    then show ?thesis by (subst outerLoop.simps) simp
  next
    case True
    let ?words' = "innerLoop (ToLower tbl (words ! i)) i profaneWords words"
    have w': "?words' = words[i := ?m (words ! i)]"
      by (simp add: innerLoop_eq)
    have "outerLoop tbl i words = outerLoop tbl (Suc i) ?words'"
      using True by (subst outerLoop.simps) simp
    also have "\<dots> = take (Suc i) ?words' @ map ?m (drop (Suc i) ?words')"
      using True by (rule "1.IH")
    also have "\<dots> = take i words @ ?m (words ! i) # map ?m (drop (Suc i) words)"
      using True unfolding w' by (simp add: take_Suc_conv_app_nth)
    also have "\<dots> = take i words @ map ?m (drop i words)"
      using True by (simp add: Cons_nth_drop_Suc [symmetric])
    finally show ?thesis .
  qed
qed

lemma cleanProfanity_eq:
  "cleanProfanity tbl input =
     Join (map (\<lambda>w. if ToLower tbl w \<in> set profaneWords then ''****'' else w)
            (Split input CHR '' '')) '' ''"
  by (simp add: cleanProfanity_def outerLoop_eq)

section \<open>Facts about lower case and lengths\<close>

lemma ToLower_mask: "ToLower tbl ''****'' = ''****''"
  by code_simp

lemma mask_not_profane: "ToLower tbl ''****'' \<notin> set profaneWords"
  by (simp add: ToLower_mask profaneWords_def)

lemma cleanProfanity_idem_aux:
  fixes tbl defines "m \<equiv> \<lambda>w. if ToLower tbl w \<in> set profaneWords then ''****'' else w"
  shows "Split (Join (map m (Split s CHR '' '')) '' '') CHR '' '' = map m (Split s CHR '' '')"
proof (rule Split_Join)
  show "map m (Split s CHR '' '') \<noteq> []" by (simp add: Split_not_Nil)
  show "\<forall>w\<in>set (map m (Split s CHR '' '')). CHR '' '' \<notin> set w"
    by (auto simp: m_def dest: Split_tokens)
qed

lemma runes_length: "length (runes s) \<le> length s"
proof (induction s rule: runes.induct)
  case (1 s)
  show ?case
  proof (cases "s = []")
    case True
    then show ?thesis by (subst runes.simps) simp
  next
    case False
    let ?w = "snd (DecodeRuneInString s)"
    have "length (runes s) = Suc (length (runes (drop ?w s)))"
      using False by (subst runes.simps) simp
    also have "\<dots> \<le> Suc (length (drop ?w s))" using "1.IH" [OF False] by simp
    also have "\<dots> \<le> length s"
      using DecodeRuneInString_width [OF False] False by (cases s) auto
    finally show ?thesis .
  qed
qed

lemma byte_char_of: "byte (char_of (n::nat)) = n mod 256"
  by (simp add: byte_def of_char_of)

lemma EncodeRune_ascii:
  "list_all (\<lambda>c. byte c < 0x80) (EncodeRune r) \<Longrightarrow> length (EncodeRune r) = 1"
proof (cases "r \<le> 0x7F")
  case True
  then show ?thesis by (simp add: EncodeRune_def)
next
  case False
  assume a: "list_all (\<lambda>c. byte c < 0x80) (EncodeRune r)"
  have "\<not> byte (hd (EncodeRune r)) < 0x80"
  proof -
    consider "r \<le> 0x7FF" | "0x7FF < r" "0x10FFFF < r \<or> (0xD800 \<le> r \<and> r \<le> 0xDFFF)"
      | "0x7FF < r" "\<not> (0x10FFFF < r \<or> (0xD800 \<le> r \<and> r \<le> 0xDFFF))" "r \<le> 0xFFFF"
      | "0xFFFF < r" "r \<le> 0x10FFFF" by linarith
    then show ?thesis
    proof cases
      case 1
      then have "r div 0x40 < 0x20" by simp
      then have "(0xC0 + r div 0x40) mod 256 = 0xC0 + r div 0x40" by simp
      with False 1 show ?thesis by (simp add: EncodeRune_def byte_char_of)
    next
      case 2
      with False show ?thesis by (simp add: EncodeRune_def byte_char_of)
    next
      case 3
      then have "r div 0x1000 < 0x10" by simp
      then have "(0xE0 + r div 0x1000) mod 256 = 0xE0 + r div 0x1000" by simp
      with False 3 show ?thesis by (simp add: EncodeRune_def byte_char_of)
    next
      case 4
      then have "r div 0x40000 < 0x10" by simp
      then have "(0xF0 + r div 0x40000) mod 256 = 0xF0 + r div 0x40000" by simp
      with False 4 show ?thesis by (simp add: EncodeRune_def byte_char_of)
    qed
  qed
  moreover have "EncodeRune r \<noteq> []" by (simp add: EncodeRune_def)
  ultimately show ?thesis using a by (cases "EncodeRune r") simp_all
qed

lemma concat_EncodeRune_ascii:
  "list_all (\<lambda>c. byte c < 0x80) (concat (map (\<lambda>c. EncodeRune (f c)) rs)) \<Longrightarrow>
   length (concat (map (\<lambda>c. EncodeRune (f c)) rs)) = length rs"
  by (induction rs) (simp_all add: EncodeRune_ascii)

lemma Map_ascii_length:
  "list_all (\<lambda>c. byte c < 0x80) (Map f s) \<Longrightarrow> length (Map f s) \<le> length s"
  unfolding Map_def using concat_EncodeRune_ascii [of f "runes s"] runes_length [of s] by simp

lemma profaneWords_ascii: "w \<in> set profaneWords \<Longrightarrow> list_all (\<lambda>c. byte c < 0x80) w"
  by (auto simp: profaneWords_def byte_def)

lemma profaneWords_length: "w \<in> set profaneWords \<Longrightarrow> 6 \<le> length w"
  by (auto simp: profaneWords_def)

lemma ToLower_length:
  "list_all (\<lambda>c. byte c < 0x80) (ToLower tbl s) \<Longrightarrow> length (ToLower tbl s) \<le> length s"
  by (auto simp: ToLower_def Map_ascii_length)

lemma profane_token_length:
  assumes "ToLower tbl t \<in> set profaneWords"
  shows "6 \<le> length t"
proof -
  have "6 \<le> length (ToLower tbl t)" using assms by (rule profaneWords_length)
  also have "\<dots> \<le> length t" using assms by (intro ToLower_length profaneWords_ascii)
  finally show ?thesis .
qed

lemma mask_length:
  "length (if ToLower tbl w \<in> set profaneWords then ''****'' else w) \<le> length w"
  using profane_token_length [of tbl w] by auto

lemma sum_list_mask:
  "sum_list (map length (map (\<lambda>w. if ToLower tbl w \<in> set profaneWords then ''****'' else w) ws))
     \<le> sum_list (map length ws)"
proof (induction ws)
  case Nil
  then show ?case by simp
next
  case (Cons w ws)
  from mask_length [of tbl w] Cons show ?case by simp
qed

lemma length_cleanProfanity: "length (cleanProfanity tbl s) \<le> length s"
proof -
  let ?m = "\<lambda>w. if ToLower tbl w \<in> set profaneWords then ''****'' else w"
  let ?ws = "Split s CHR '' ''"
  have "length (cleanProfanity tbl s) = sum_list (map length (map ?m ?ws)) + (length ?ws - 1) * 1"
    by (simp add: cleanProfanity_eq length_Join)
  also have "\<dots> \<le> sum_list (map length ?ws) + (length ?ws - 1) * 1"
    using sum_list_mask [of tbl ?ws] by simp
  also have "\<dots> = length (Join ?ws '' '')" by (simp add: length_Join)
  also have "\<dots> = length s" by (simp add: Join_Split)
  finally show ?thesis .
qed

lemma cleanProfanity_idem: "cleanProfanity tbl (cleanProfanity tbl s) = cleanProfanity tbl s"
proof -
  let ?m = "\<lambda>w. if ToLower tbl w \<in> set profaneWords then ''****'' else w"
  have mm: "?m (?m w) = ?m w" for w using mask_not_profane [of tbl] by simp
  have "cleanProfanity tbl (cleanProfanity tbl s)
      = Join (map ?m (Split (Join (map ?m (Split s CHR '' '')) '' '') CHR '' '')) '' ''"
    by (simp only: cleanProfanity_eq)
  also have "\<dots> = Join (map ?m (map ?m (Split s CHR '' ''))) '' ''"
    by (simp only: cleanProfanity_idem_aux)
  also have "map ?m (map ?m (Split s CHR '' '')) = map ?m (Split s CHR '' '')"
    using mm by (simp add: comp_def)
  finally show ?thesis by (simp only: cleanProfanity_eq)
qed

lemma cleanProfanity_id:
  assumes "\<forall>tok\<in>set (Split body CHR '' ''). ToLower tbl tok \<notin> set profaneWords"
  shows "cleanProfanity tbl body = body"
proof -
  have "map (\<lambda>w. if ToLower tbl w \<in> set profaneWords then ''****'' else w) (Split body CHR '' '')
      = Split body CHR '' ''"
    using assms by (simp add: map_idI)
  then show ?thesis by (simp add: cleanProfanity_eq Join_Split)
qed

section \<open>Facts about the decoder and the handlers\<close>

lemma respondWithError_eq:
  "respondWithError code msg =
     \<lparr>Header_ContentType = Some ''application/json'', StatusCode = code,
      Written = JSON (OObject [(''error'', OString msg)])\<rparr>"
  by (simp add: respondWithError_def respondWithJSON_def)

lemma object_UserRequest_error:
  "snd (object_UserRequest fld ms v saved) = None \<longleftrightarrow>
     saved = None \<and>
     \<not> list_ex (\<lambda>m. fieldMatches fld (fst m) ''email'' \<and> \<not> string_or_null (snd m)) ms"
proof (induction ms arbitrary: v saved)
  case Nil
  then show ?case by simp
next
  case (Cons m ms)
  obtain key item where m: "m = (key, item)" by (cases m)
  show ?case unfolding m
    by (cases item) (auto simp: Cons.IH saveError_def split: option.splits)
qed

lemma Decode_UserRequest_error:
  "snd (Decode_UserRequest lib b) \<noteq> None \<longleftrightarrow> rejected_UserRequest lib b"
proof (cases b)
  case NoValue
  then show ?thesis by (simp add: Decode_UserRequest_def rejected_UserRequest_def)
next
  case NotJSON
  then show ?thesis by (simp add: Decode_UserRequest_def rejected_UserRequest_def)
next
  case (Value j)
  then show ?thesis
    by (cases j) (simp_all add: Decode_UserRequest_def rejected_UserRequest_def
        object_UserRequest_error)
qed

lemma createUserHandler_rejected:
  assumes "rejected_UserRequest lib (Body r)"
  shows "createUserHandler lib q cfg r = (respondWithError 400 ''Invalid request payload'', cfg)"
proof -
  from assms obtain e where "snd (Decode_UserRequest lib (Body r)) = Some e"
    using Decode_UserRequest_error [of lib "Body r"] by auto
  then show ?thesis
    by (cases "Decode_UserRequest lib (Body r)") (simp add: createUserHandler_def)
qed

lemma createUserHandler_accepted:
  assumes "\<not> rejected_UserRequest lib (Body r)"
  defines "params \<equiv> \<lparr>CreateUserParams_ID = uuid_New r,
             CreateUserParams_Email = UserRequest_Email (fst (Decode_UserRequest lib (Body r))),
             CreateUserParams_CreatedAt = time_Now_1 r,
             CreateUserParams_UpdatedAt = time_Now_2 r\<rparr>"
  shows "createUserHandler lib q cfg r =
     (case CreateUser q (db cfg) params of
        (Inl err, d) \<Rightarrow>
          (respondWithError 500 ''Error creating user'',
           cfg\<lparr>db := d, trace := trace cfg @ [Db_CreateUser params]\<rparr>)
      | (Inr u, d) \<Rightarrow>
          (\<lparr>Header_ContentType = Some ''application/json'', StatusCode = 201,
            Written = JSON (OObject [(''id'', OUUID (database_User_ID u)),
                                     (''created_at'', OTime (database_User_CreatedAt u)),
                                     (''updated_at'', OTime (database_User_UpdatedAt u)),
                                     (''email'', OString (database_User_Email u))])\<rparr>,
           cfg\<lparr>db := d, trace := trace cfg @ [Db_CreateUser params]\<rparr>))"
proof -
  from assms(1) have "snd (Decode_UserRequest lib (Body r)) = None"
    using Decode_UserRequest_error [of lib "Body r"] by auto
  then show ?thesis unfolding params_def
    by (cases "Decode_UserRequest lib (Body r)")
       (auto simp: createUserHandler_def db_call_def effect_def respondWithJSON_def Let_def
          split: prod.splits sum.splits)
qed


lemma RuneCountInString_le: "RuneCountInString s \<le> length s"
  by (simp add: RuneCountInString_def runes_length)

lemma fieldMatches_user_id_body: "\<not> fieldMatches fld ''user_id'' ''body''"
  by code_simp

lemma fieldMatches_refl: "fieldMatches fld key key"
  by (simp add: fieldMatches_def)

lemma Decode_longBadChirp:
  "Decode_CreateChirpRequest testLibrary longBadChirp =
     (\<lparr>CreateChirpRequest_Body = replicate 141 CHR ''a'', CreateChirpRequest_UserID = 0\<rparr>,
      Some UnmarshalTextError)"
proof -
  have p: "uuid_Parse testLibrary ''not-a-uuid'' = None" by (simp add: testLibrary_def)
  show ?thesis
    by (simp add: Decode_CreateChirpRequest_def longBadChirp_def Let_def
        fieldMatches_user_id_body fieldMatches_refl p)
qed

lemma runes_ascii: "list_all (\<lambda>c. byte c < 0x80) s \<Longrightarrow> runes s = map byte s"
proof (induction s)
  case Nil
  then show ?case by (subst runes.simps) simp
next
  case (Cons c cs)
  then have "byte c < 0x80" and "runes cs = map byte cs" by simp_all
  then show ?case by (subst runes.simps) simp
qed

lemma RuneCountInString_ToLower:
  assumes "list_all (\<lambda>c. byte c < 0x80) (ToLower tbl s)"
  shows "RuneCountInString s = length (ToLower tbl s)"
proof (cases "list_all (\<lambda>c. byte c < 0x80) s")
  case True
  then show ?thesis by (simp add: RuneCountInString_def runes_ascii ToLower_def)
next
  case False
  with assms show ?thesis
    using concat_EncodeRune_ascii [of "unicode_ToLower tbl" "runes s"]
    by (simp add: RuneCountInString_def ToLower_def Map_def)
qed

lemma profaneWords_length_le: "w \<in> set profaneWords \<Longrightarrow> length w \<le> 9"
  by (auto simp: profaneWords_def)

lemma profane_token_runes:
  assumes "ToLower tbl tok \<in> set profaneWords"
  shows "6 \<le> RuneCountInString tok \<and> RuneCountInString tok \<le> 9"
  using assms RuneCountInString_ToLower [OF profaneWords_ascii [OF assms]]
    profaneWords_length [OF assms] profaneWords_length_le [OF assms] by simp

lemma createChirpHandler_trace:
  "trace (snd (createChirpHandler lib q cfg r)) =
     trace cfg @
     (case Decode_CreateChirpRequest lib (Body r) of
        (req, Some e) \<Rightarrow> []
      | (req, None) \<Rightarrow>
          if 140 < length (CreateChirpRequest_Body req) then []
          else
            let params = \<lparr>CreateChirpParams_ID = uuid_New r,
                          CreateChirpParams_CreatedAt = time_Now_1 r,
                          CreateChirpParams_UpdatedAt = time_Now_2 r,
                          CreateChirpParams_Body =
                            cleanProfanity (CaseLower lib) (CreateChirpRequest_Body req),
                          CreateChirpParams_UserID = CreateChirpRequest_UserID req\<rparr>
            in Call_cleanProfanity (CreateChirpRequest_Body req) # Db_CreateChirp params #
               (case fst (CreateChirp q (db cfg) params) of
                  Inl err \<Rightarrow> [Log_Printf ''Error creating chirp: %v'' err]
                | Inr chirp \<Rightarrow> []))"
  by (auto simp: createChirpHandler_def db_call_def effect_def Let_def
        split: prod.splits option.splits sum.splits)
















lemma runes_kelvinWord: "runes kelvinWord = [0x212A, 0x65, 0x72, 0x66, 0x75, 0x66, 0x66, 0x6C, 0x65]"
  by code_simp

lemma ToLower_kelvinWord: "ToLower (CaseLower testLibrary) kelvinWord = ''kerfuffle''"
  by code_simp

lemma cleanProfanity_kelvinWord: "cleanProfanity (CaseLower testLibrary) (''a '' @ kelvinWord) = ''a ****''"
  by code_simp

lemma RuneCountInString_kelvinWord: "RuneCountInString kelvinWord = 9 \<and> length kelvinWord = 11"
  by code_simp

lemma length_foldName: "length (foldName fld s) = length (runes s)"
  by (simp add: foldName_def)

lemma foldName_body_user_id: "foldName fld ''body'' \<noteq> foldName fld ''user_id''"
proof
  assume "foldName fld ''body'' = foldName fld ''user_id''"
  then have "length (foldName fld ''body'') = length (foldName fld ''user_id'')"
    by simp
  then have "length (runes ''body'') = length (runes ''user_id'')"
    by (simp only: length_foldName)
  moreover have "length (runes ''body'') = 4" "length (runes ''user_id'') = 7"
    by code_simp+
  ultimately show False by simp
qed

lemma fieldMatches_body_or_user_id:
  "fieldMatches fld key ''user_id'' \<Longrightarrow> \<not> fieldMatches fld key ''body''"
  using foldName_body_user_id [of fld] by (auto simp: fieldMatches_def)

lemma object_CreateChirpRequest_saved:
  "saved \<noteq> None \<Longrightarrow> snd (object_CreateChirpRequest lib ms v saved) \<noteq> None"
proof (induction ms arbitrary: v saved)
  case Nil
  then show ?case by simp
next
  case (Cons m ms)
  obtain key item where m: "m = (key, item)" by (cases m)
  from Cons.prems have s: "saveError saved UnmarshalTypeError \<noteq> None"
    by (auto simp: saveError_def)
  show ?case unfolding m using Cons.IH [OF Cons.prems] Cons.IH [OF s]
    by (cases item) (auto split: option.splits)
qed

lemma object_CreateChirpRequest_bad_user_id:
  "list_ex (bad_user_id lib) ms \<Longrightarrow> snd (object_CreateChirpRequest lib ms v saved) \<noteq> None"
proof (induction ms arbitrary: v saved)
  case Nil
  then show ?case by simp
next
  case (Cons m ms)
  obtain key item where m: "m = (key, item)" by (cases m)
  show ?case
  proof (cases "bad_user_id lib m")
    case True
    then obtain s where "fieldMatches (CaseFold lib) key ''user_id''" "item = JString s"
      "uuid_Parse lib s = None"
      unfolding m by (auto simp: bad_user_id_def split: json.splits)
    then show ?thesis unfolding m
      by (simp add: fieldMatches_body_or_user_id)
  next
    case False
    with Cons.prems have "list_ex (bad_user_id lib) ms" by simp
    then have ih: "snd (object_CreateChirpRequest lib ms v' saved') \<noteq> None" for v' saved'
      by (rule Cons.IH)
    from False have nb: "\<not> (fieldMatches (CaseFold lib) key ''user_id''
        \<and> (case item of JString s \<Rightarrow> uuid_Parse lib s = None | _ \<Rightarrow> False))"
      unfolding m by (simp add: bad_user_id_def)
    show ?thesis unfolding m using ih nb
      by (cases item) (auto split: option.splits)
  qed
qed

lemma createChirpHandler_decode_error:
  assumes "snd (Decode_CreateChirpRequest lib (Body r)) \<noteq> None"
  shows "createChirpHandler lib q cfg r = (respondWithError 400 ''Invalid request payload'', cfg)"
  using assms
  by (cases "Decode_CreateChirpRequest lib (Body r)") (auto simp: createChirpHandler_def)

lemma object_UserRequest_email_none:
  "\<not> list_ex (email_string fld) ms \<Longrightarrow>
   UserRequest_Email (fst (object_UserRequest fld ms v saved)) = UserRequest_Email v"
proof (induction ms arbitrary: v saved)
  case Nil
  then show ?case by simp
next
  case (Cons m ms)
  obtain key item where m: "m = (key, item)" by (cases m)
  from Cons.prems have ih: "UserRequest_Email (fst (object_UserRequest fld ms v' saved'))
      = UserRequest_Email v'" for v' saved'
    by (intro Cons.IH) simp
  from Cons.prems have "\<not> (fieldMatches fld key ''email'' \<and> is_JString item)"
    unfolding m by (simp add: email_string_def)
  then show ?case unfolding m
    by (cases item) (auto simp: ih)
qed

lemma object_UserRequest_email_last:
  assumes "fieldMatches fld key ''email''" and "\<not> list_ex (email_string fld) after"
  shows "UserRequest_Email
           (fst (object_UserRequest fld (before @ (key, JString address) # after) v saved))
         = address"
proof (induction before arbitrary: v saved)
  case Nil
  from assms show ?case by (simp add: object_UserRequest_email_none)
next
  case (Cons m before)
  obtain k item where m: "m = (k, item)" by (cases m)
  show ?case unfolding m
    by (cases item) (auto simp: Cons.IH)
qed

lemma not_fieldMatches_name_email: "\<not> fieldMatches fld ''name'' ''email''"
  by code_simp

section \<open>The claims\<close>

subsection \<open>C1\<close>

text \<open>
  C1. For every input, \<open>cleanProfanity\<close> splits it at the single spaces, replaces each
  element whose lower-case form (by \<open>strings.ToLower\<close>) is one of kerfuffle, sharbert,
  fornax by the four characters \<open>****\<close>, keeps every other element, and joins the
  elements with single spaces. The split is at every space: no element holds a space, and
  joining the elements gives the input back. On the example of the spec the word kerfuffle
  is masked; kerfuffled is kept and Kerfuffle is masked. All of this holds whatever the
  case tables of the library say above ASCII.
\<close>

theorem C1_cleanProfanity_masks_whole_tokens:
  "cleanProfanity tbl input =
     Join (map (\<lambda>tok. if ToLower tbl tok \<in> {''kerfuffle'', ''sharbert'', ''fornax''}
                        then ''****'' else tok)
            (Split input CHR '' '')) '' ''
   \<and> Join (Split input CHR '' '') '' '' = input
   \<and> (\<forall>tok\<in>set (Split input CHR '' ''). CHR '' '' \<notin> set tok)
   \<and> cleanProfanity tbl ''This is a kerfuffle opinion I need to share''
       = ''This is a **** opinion I need to share''
   \<and> cleanProfanity tbl ''kerfuffled'' = ''kerfuffled''
   \<and> cleanProfanity tbl ''Kerfuffle'' = ''****''"
proof -
  have "cleanProfanity tbl input =
     Join (map (\<lambda>tok. if ToLower tbl tok \<in> {''kerfuffle'', ''sharbert'', ''fornax''}
                        then ''****'' else tok)
            (Split input CHR '' '')) '' ''"
    by (simp add: cleanProfanity_eq profaneWords_def)
  moreover have "Join (Split input CHR '' '') '' '' = input"
    by (rule Join_Split)
  moreover have "\<forall>tok\<in>set (Split input CHR '' ''). CHR '' '' \<notin> set tok"
    by (blast dest: Split_tokens)
  moreover have "cleanProfanity tbl ''This is a kerfuffle opinion I need to share''
       = ''This is a **** opinion I need to share''"
    by code_simp
  moreover have "cleanProfanity tbl ''kerfuffled'' = ''kerfuffled''"
    by code_simp
  moreover have "cleanProfanity tbl ''Kerfuffle'' = ''****''"
    by code_simp
  ultimately show ?thesis by blast
qed

text \<open>An input with a doubled and a trailing space, two words of it on the list.\<close>

theorem C1_cleanProfanity_masks_whole_tokens_witness:
  "Split ''Sharbert  is FORNAX '' CHR '' '' = [''Sharbert'', [], ''is'', ''FORNAX'', []]
   \<and> cleanProfanity (\<lambda>r. r) ''Sharbert  is FORNAX '' = ''****  is **** ''
   \<and> CHR '' '' \<notin> set ''Sharbert''"
proof -
  have sp: "Split ''Sharbert  is FORNAX '' CHR '' '' = [''Sharbert'', [], ''is'', ''FORNAX'', []]"
    by code_simp
  have lw: "ToLower (\<lambda>r. r) ''Sharbert'' = ''sharbert''" "ToLower (\<lambda>r. r) [] = []"
    "ToLower (\<lambda>r. r) ''is'' = ''is''" "ToLower (\<lambda>r. r) ''FORNAX'' = ''fornax''"
    by code_simp+
  from C1_cleanProfanity_masks_whole_tokens [of "\<lambda>r. r" "''Sharbert  is FORNAX ''"]
  show ?thesis unfolding sp by (simp add: lw)
qed

subsection \<open>C2\<close>

text \<open>
  C2, as amended. A chirp-creation request that decodes without error and whose body is
  longer than 140 (in characters, hence in bytes, which is what \<open>len\<close> counts) is answered
  400 with "Chirp is too long", and the configuration comes back as it was: no call of the
  moderator, no query, no change of the counter. A request that does not decode is
  answered 400 with "Invalid request payload", whatever the length of its body, and again
  the configuration comes back as it was; an envelope with a user identifier that is no
  UUID, wherever the member stands, is such a request.
\<close>

theorem C2_long_body_is_rejected:
  "(snd (Decode_CreateChirpRequest lib (Body r)) = None
      \<and> (140 < RuneCountInString
                  (CreateChirpRequest_Body (fst (Decode_CreateChirpRequest lib (Body r))))
          \<or> 140 < length (CreateChirpRequest_Body (fst (Decode_CreateChirpRequest lib (Body r)))))
      \<longrightarrow>
      createChirpHandler lib q cfg r =
        (\<lparr>Header_ContentType = Some ''application/json'', StatusCode = 400,
          Written = JSON (OObject [(''error'', OString ''Chirp is too long'')])\<rparr>, cfg))
   \<and> (snd (Decode_CreateChirpRequest lib (Body r)) \<noteq> None \<longrightarrow>
      createChirpHandler lib q cfg r =
        (\<lparr>Header_ContentType = Some ''application/json'', StatusCode = 400,
          Written = JSON (OObject [(''error'', OString ''Invalid request payload'')])\<rparr>, cfg))
   \<and> (Body r = Value (JObject members) \<and> list_ex (bad_user_id lib) members \<longrightarrow>
      snd (Decode_CreateChirpRequest lib (Body r)) \<noteq> None
      \<and> createChirpHandler lib q cfg r =
        (\<lparr>Header_ContentType = Some ''application/json'', StatusCode = 400,
          Written = JSON (OObject [(''error'', OString ''Invalid request payload'')])\<rparr>, cfg))"
proof -
  let ?d = "Decode_CreateChirpRequest lib (Body r)"
  have 1: "createChirpHandler lib q cfg r =
        (\<lparr>Header_ContentType = Some ''application/json'', StatusCode = 400,
          Written = JSON (OObject [(''error'', OString ''Chirp is too long'')])\<rparr>, cfg)"
    if ok: "snd ?d = None"
      and long: "140 < RuneCountInString (CreateChirpRequest_Body (fst ?d))
                 \<or> 140 < length (CreateChirpRequest_Body (fst ?d))"
  proof -
    from long RuneCountInString_le [of "CreateChirpRequest_Body (fst ?d)"]
    have "140 < length (CreateChirpRequest_Body (fst ?d))" by linarith
    with ok show ?thesis
      by (cases ?d) (simp add: createChirpHandler_def respondWithError_eq)
  qed
  have 2: "createChirpHandler lib q cfg r =
        (\<lparr>Header_ContentType = Some ''application/json'', StatusCode = 400,
          Written = JSON (OObject [(''error'', OString ''Invalid request payload'')])\<rparr>, cfg)"
    if "snd ?d \<noteq> None"
    using createChirpHandler_decode_error [OF that] by (simp add: respondWithError_eq)
  have 3: "snd ?d \<noteq> None"
    if "Body r = Value (JObject members)" and "list_ex (bad_user_id lib) members"
    using that object_CreateChirpRequest_bad_user_id [of lib members]
    by (simp add: Decode_CreateChirpRequest_def Let_def)
  from 1 2 3 show ?thesis by blast
qed

text \<open>
  The claim as it was stated fails for a request whose body has 141 characters and whose
  user identifier is no UUID: the decoder has stored the body when it stops at the
  identifier, and the answer is 400 with "Invalid request payload".
\<close>

theorem C2_long_body_in_bad_envelope:
  "length (CreateChirpRequest_Body (fst (Decode_CreateChirpRequest testLibrary longBadChirp))) = 141
   \<and> Written (fst (createChirpHandler testLibrary memQueries (testConfig ''dev'')
                     (testRequest POST_api_chirps ''/api/chirps'' longBadChirp)))
       = JSON (OObject [(''error'', OString ''Invalid request payload'')])
   \<and> Written (fst (createChirpHandler testLibrary memQueries (testConfig ''dev'')
                     (testRequest POST_api_chirps ''/api/chirps'' longBadChirp)))
       \<noteq> JSON (OObject [(''error'', OString ''Chirp is too long'')])"
  by (simp add: createChirpHandler_def testRequest_def Decode_longBadChirp respondWithError_eq)

text \<open>
  A body of 141 characters in an envelope that decodes; and the same body next to a user
  identifier that is no UUID, before it and after it.
\<close>

theorem C2_long_body_is_rejected_witness:
  "snd (Decode_CreateChirpRequest testLibrary
          (Body (testRequest POST_api_chirps ''/api/chirps''
             (Value (JObject [(''body'', JString (replicate 141 CHR ''a''))]))))) = None
   \<and> 140 < length (CreateChirpRequest_Body (fst (Decode_CreateChirpRequest testLibrary
             (Body (testRequest POST_api_chirps ''/api/chirps''
                (Value (JObject [(''body'', JString (replicate 141 CHR ''a''))])))))))
   \<and> createChirpHandler testLibrary memQueries (testConfig ''dev'')
        (testRequest POST_api_chirps ''/api/chirps''
           (Value (JObject [(''body'', JString (replicate 141 CHR ''a''))])))
       = (\<lparr>Header_ContentType = Some ''application/json'', StatusCode = 400,
           Written = JSON (OObject [(''error'', OString ''Chirp is too long'')])\<rparr>,
          testConfig ''dev'')
   \<and> list_ex (bad_user_id testLibrary)
         [(''user_id'', JString ''not-a-uuid''), (''body'', JString (replicate 141 CHR ''a''))]
   \<and> createChirpHandler testLibrary memQueries (testConfig ''dev'')
        (testRequest POST_api_chirps ''/api/chirps'' badLongChirp)
       = (\<lparr>Header_ContentType = Some ''application/json'', StatusCode = 400,
           Written = JSON (OObject [(''error'', OString ''Invalid request payload'')])\<rparr>,
          testConfig ''dev'')
   \<and> createChirpHandler testLibrary memQueries (testConfig ''dev'')
        (testRequest POST_api_chirps ''/api/chirps'' longBadChirp)
       = (\<lparr>Header_ContentType = Some ''application/json'', StatusCode = 400,
           Written = JSON (OObject [(''error'', OString ''Invalid request payload'')])\<rparr>,
          testConfig ''dev'')"
proof -
  let ?r = "testRequest POST_api_chirps ''/api/chirps''
              (Value (JObject [(''body'', JString (replicate 141 CHR ''a''))]))"
  let ?b = "testRequest POST_api_chirps ''/api/chirps'' badLongChirp"
  let ?l = "testRequest POST_api_chirps ''/api/chirps'' longBadChirp"
  have d: "Decode_CreateChirpRequest testLibrary (Body ?r) =
     (\<lparr>CreateChirpRequest_Body = replicate 141 CHR ''a'', CreateChirpRequest_UserID = 0\<rparr>, None)"
    by (simp add: Decode_CreateChirpRequest_def testRequest_def Let_def fieldMatches_refl)
  have p: "uuid_Parse testLibrary ''not-a-uuid'' = None" by (simp add: testLibrary_def)
  have bb: "Body ?b = Value (JObject [(''user_id'', JString ''not-a-uuid''),
                                      (''body'', JString (replicate 141 CHR ''a''))])"
    by (simp add: testRequest_def badLongChirp_def)
  have bl: "Body ?l = Value (JObject [(''body'', JString (replicate 141 CHR ''a'')),
                                      (''user_id'', JString ''not-a-uuid'')])"
    by (simp add: testRequest_def longBadChirp_def)
  have e1: "list_ex (bad_user_id testLibrary)
         [(''user_id'', JString ''not-a-uuid''), (''body'', JString (replicate 141 CHR ''a''))]"
    by (simp add: bad_user_id_def fieldMatches_refl p)
  have e2: "list_ex (bad_user_id testLibrary)
         [(''body'', JString (replicate 141 CHR ''a'')), (''user_id'', JString ''not-a-uuid'')]"
    by (simp add: bad_user_id_def fieldMatches_refl p)
  from C2_long_body_is_rejected [where lib = testLibrary and r = ?r and q = memQueries and cfg = "testConfig ''dev''"] d
  have 1: "createChirpHandler testLibrary memQueries (testConfig ''dev'') ?r
       = (\<lparr>Header_ContentType = Some ''application/json'', StatusCode = 400,
           Written = JSON (OObject [(''error'', OString ''Chirp is too long'')])\<rparr>,
          testConfig ''dev'')"
    by simp
  from C2_long_body_is_rejected [where lib = testLibrary and r = ?b and q = memQueries and cfg = "testConfig ''dev''"
      and members = "[(''user_id'', JString ''not-a-uuid''),
                      (''body'', JString (replicate 141 CHR ''a''))]"] bb e1
  have 2: "createChirpHandler testLibrary memQueries (testConfig ''dev'') ?b
       = (\<lparr>Header_ContentType = Some ''application/json'', StatusCode = 400,
           Written = JSON (OObject [(''error'', OString ''Invalid request payload'')])\<rparr>,
          testConfig ''dev'')"
    by blast
  from C2_long_body_is_rejected [where lib = testLibrary and r = ?l and q = memQueries and cfg = "testConfig ''dev''"
      and members = "[(''body'', JString (replicate 141 CHR ''a'')),
                      (''user_id'', JString ''not-a-uuid'')]"] bl e2
  have 3: "createChirpHandler testLibrary memQueries (testConfig ''dev'') ?l
       = (\<lparr>Header_ContentType = Some ''application/json'', StatusCode = 400,
           Written = JSON (OObject [(''error'', OString ''Invalid request payload'')])\<rparr>,
          testConfig ''dev'')"
    by blast
  from d have 0: "snd (Decode_CreateChirpRequest testLibrary (Body ?r)) = None"
    "140 < length (CreateChirpRequest_Body (fst (Decode_CreateChirpRequest testLibrary (Body ?r))))"
    by simp_all
  from 0 1 e1 2 3 show ?thesis by blast
qed

subsection \<open>C3\<close>




subsection \<open>C4\<close>

text \<open>
  C4. When the platform is not \<open>dev\<close>, the reset is answered 403 with an error message;
  the configuration comes back as it was: the counter keeps its value, and nothing is
  added to the trace, so \<open>DeleteAllUsers\<close> is not invoked, and the store is the same.
\<close>

theorem C4_reset_outside_dev_is_rejected:
  assumes "platform cfg \<noteq> ''dev''"
  shows "adminResetHandler q cfg r =
           (\<lparr>Header_ContentType = Some ''application/json'', StatusCode = 403,
             Written = JSON (OObject [(''error'',
                         OString ''This endpoint is only available in development'')])\<rparr>, cfg)
         \<and> fileserverHits (snd (adminResetHandler q cfg r)) = fileserverHits cfg
         \<and> trace (snd (adminResetHandler q cfg r)) = trace cfg
         \<and> db (snd (adminResetHandler q cfg r)) = db cfg"
  using assms by (simp add: adminResetHandler_def respondWithError_eq)

text \<open>The reset on a server whose platform is \<open>production\<close>.\<close>

theorem C4_reset_outside_dev_is_rejected_witness:
  "platform (testConfig ''production'') \<noteq> ''dev''
   \<and> StatusCode (fst (adminResetHandler memQueries (testConfig ''production'')
                        (testRequest POST_admin_reset ''/admin/reset'' NoValue))) = 403
   \<and> snd (adminResetHandler memQueries (testConfig ''production'')
             (testRequest POST_admin_reset ''/admin/reset'' NoValue)) = testConfig ''production''"
proof -
  have h: "platform (testConfig ''production'') \<noteq> ''dev''" by (simp add: testConfig_def)
  from C4_reset_outside_dev_is_rejected [OF h, of memQueries "testRequest POST_admin_reset ''/admin/reset'' NoValue"]
  show ?thesis using h by simp
qed

subsection \<open>C5\<close>

text \<open>
  C5. The lookup of a chirp by its identifier: 400 when \<open>uuid.Parse\<close> rejects the path
  segment; 404 when the store answers \<open>sql.ErrNoRows\<close>; 500 when it fails in any other
  way; 200 with the chirp as JSON (id, created_at, updated_at, body, user_id) otherwise.
\<close>

theorem C5_getChirpByIDHandler_outcomes:
  "(uuid_Parse lib (PathValue_chirpID r) = None \<longrightarrow>
      getChirpByIDHandler lib q cfg r =
        (\<lparr>Header_ContentType = Some ''application/json'', StatusCode = 400,
          Written = JSON (OObject [(''error'', OString ''Invalid chirp ID format'')])\<rparr>, cfg))
   \<and> (uuid_Parse lib (PathValue_chirpID r) = Some chirpID
        \<and> fst (GetChirpByID q (db cfg) chirpID) = Inl ErrNoRows \<longrightarrow>
      fst (getChirpByIDHandler lib q cfg r) =
        \<lparr>Header_ContentType = Some ''application/json'', StatusCode = 404,
         Written = JSON (OObject [(''error'', OString ''Chirp not found'')])\<rparr>)
   \<and> (uuid_Parse lib (PathValue_chirpID r) = Some chirpID
        \<and> fst (GetChirpByID q (db cfg) chirpID) = Inl err \<and> err \<noteq> ErrNoRows \<longrightarrow>
      fst (getChirpByIDHandler lib q cfg r) =
        \<lparr>Header_ContentType = Some ''application/json'', StatusCode = 500,
         Written = JSON (OObject [(''error'', OString ''Error getting chirp'')])\<rparr>)
   \<and> (uuid_Parse lib (PathValue_chirpID r) = Some chirpID
        \<and> fst (GetChirpByID q (db cfg) chirpID) = Inr chirp \<longrightarrow>
      fst (getChirpByIDHandler lib q cfg r) =
        \<lparr>Header_ContentType = Some ''application/json'', StatusCode = 200,
         Written = JSON (OObject [(''id'', OUUID (database_Chirp_ID chirp)),
                                  (''created_at'', OTime (database_Chirp_CreatedAt chirp)),
                                  (''updated_at'', OTime (database_Chirp_UpdatedAt chirp)),
                                  (''body'', OString (database_Chirp_Body chirp)),
                                  (''user_id'', OUUID (database_Chirp_UserID chirp))])\<rparr>)"
  by (auto simp: getChirpByIDHandler_def db_call_def effect_def respondWithError_eq
        respondWithJSON_def Encode_Chirp_def Chirp_of_def split: prod.splits)

text \<open>
  The four outcomes: a segment that is no UUID, an empty store, a store out of reach, and
  a store that holds the chirp.
\<close>

theorem C5_getChirpByIDHandler_outcomes_witness:
  "StatusCode (fst (getChirpByIDHandler testLibrary memQueries (testConfig ''dev'')
                 (testRequest GET_api_chirps_chirpID ''not-a-uuid'' NoValue))) = 400
   \<and> StatusCode (fst (getChirpByIDHandler testLibrary memQueries (testConfig ''dev'')
                 (testRequest GET_api_chirps_chirpID ''6ba7b810-9dad-11d1-80b4-00c04fd430c8''
                    NoValue))) = 404
   \<and> StatusCode (fst (getChirpByIDHandler testLibrary downQueries (testConfig ''dev'')
                 (testRequest GET_api_chirps_chirpID ''6ba7b810-9dad-11d1-80b4-00c04fd430c8''
                    NoValue))) = 500
   \<and> fst (getChirpByIDHandler testLibrary memQueries
            ((testConfig ''dev'')\<lparr>db := \<lparr>users = [], chirps = [testChirp]\<rparr>\<rparr>)
            (testRequest GET_api_chirps_chirpID ''6ba7b810-9dad-11d1-80b4-00c04fd430c8'' NoValue))
       = \<lparr>Header_ContentType = Some ''application/json'', StatusCode = 200,
          Written = JSON (OObject [(''id'', OUUID 0x6ba7b8109dad11d180b400c04fd430c8),
                                   (''created_at'', OTime 10), (''updated_at'', OTime 11),
                                   (''body'', OString ''hello''), (''user_id'', OUUID 7)])\<rparr>"
proof -
  let ?bad = "testRequest GET_api_chirps_chirpID ''not-a-uuid'' NoValue"
  let ?good = "testRequest GET_api_chirps_chirpID ''6ba7b810-9dad-11d1-80b4-00c04fd430c8'' NoValue"
  let ?i = "0x6ba7b8109dad11d180b400c04fd430c8 :: UUID"
  let ?full = "(testConfig ''dev'')\<lparr>db := \<lparr>users = [], chirps = [testChirp]\<rparr>\<rparr>"
  have pb: "uuid_Parse testLibrary (PathValue_chirpID ?bad) = None"
    by (simp add: testLibrary_def testRequest_def)
  have pg: "uuid_Parse testLibrary (PathValue_chirpID ?good) = Some ?i"
    by (simp add: testLibrary_def testRequest_def)
  have m: "fst (GetChirpByID memQueries (db (testConfig ''dev'')) ?i) = Inl ErrNoRows"
    by (simp add: memQueries_def testConfig_def)
  have d: "fst (GetChirpByID downQueries (db (testConfig ''dev'')) ?i)
             = Inl (OtherError ''connection refused'')"
    "OtherError ''connection refused'' \<noteq> ErrNoRows"
    by (simp_all add: downQueries_def)
  have f: "fst (GetChirpByID memQueries (db ?full) ?i) = Inr testChirp"
    by (simp add: memQueries_def testChirp_def)
  from C5_getChirpByIDHandler_outcomes [where lib = testLibrary and r = ?bad and q = memQueries
         and cfg = "testConfig ''dev''"] pb
  have 1: "StatusCode (fst (getChirpByIDHandler testLibrary memQueries (testConfig ''dev'') ?bad)) = 400"
    by simp
  from C5_getChirpByIDHandler_outcomes [where lib = testLibrary and r = ?good and q = memQueries
         and cfg = "testConfig ''dev''" and chirpID = ?i] pg m
  have 2: "StatusCode (fst (getChirpByIDHandler testLibrary memQueries (testConfig ''dev'') ?good)) = 404"
    by simp
  from C5_getChirpByIDHandler_outcomes [where lib = testLibrary and r = ?good and q = downQueries
         and cfg = "testConfig ''dev''" and chirpID = ?i
         and err = "OtherError ''connection refused''"] pg d
  have 3: "StatusCode (fst (getChirpByIDHandler testLibrary downQueries (testConfig ''dev'') ?good)) = 500"
    by simp
  from C5_getChirpByIDHandler_outcomes [where lib = testLibrary and r = ?good and q = memQueries
         and cfg = ?full and chirpID = ?i and chirp = testChirp] pg f
  have 4: "fst (getChirpByIDHandler testLibrary memQueries ?full ?good)
       = \<lparr>Header_ContentType = Some ''application/json'', StatusCode = 200,
          Written = JSON (OObject [(''id'', OUUID 0x6ba7b8109dad11d180b400c04fd430c8),
                                   (''created_at'', OTime 10), (''updated_at'', OTime 11),
                                   (''body'', OString ''hello''), (''user_id'', OUUID 7)])\<rparr>"
    by (simp add: testChirp_def)
  from 1 2 3 4 show ?thesis by blast
qed

subsection \<open>C6\<close>

text \<open>
  C6, as amended. A user-creation request is answered 400 exactly when its body does not
  decode: no input, text that is not JSON, a value that is neither an object nor \<open>null\<close>,
  or an object with a member for \<open>email\<close> whose value is neither a string nor \<open>null\<close>.
  Every other body is answered 201 with the created user as JSON (id, created_at,
  updated_at, email) when the store succeeds and 500 when it fails. The address that is
  decoded from an object, whatever its other members, is the string of its last member
  for \<open>email\<close> that is a string, and the empty address when it has none; an object with
  no member for \<open>email\<close> is not rejected, and neither is \<open>null\<close>, which decodes to the
  empty address.
\<close>

theorem C6_createUserHandler_outcomes:
  "(rejected_UserRequest lib (Body r) \<longrightarrow>
      createUserHandler lib q cfg r =
        (\<lparr>Header_ContentType = Some ''application/json'', StatusCode = 400,
          Written = JSON (OObject [(''error'', OString ''Invalid request payload'')])\<rparr>, cfg))
   \<and> (\<not> rejected_UserRequest lib (Body r) \<longrightarrow>
        (case fst (CreateUser q (db cfg)
                     \<lparr>CreateUserParams_ID = uuid_New r,
                      CreateUserParams_Email =
                        UserRequest_Email (fst (Decode_UserRequest lib (Body r))),
                      CreateUserParams_CreatedAt = time_Now_1 r,
                      CreateUserParams_UpdatedAt = time_Now_2 r\<rparr>) of
           Inl err \<Rightarrow>
             fst (createUserHandler lib q cfg r) =
               \<lparr>Header_ContentType = Some ''application/json'', StatusCode = 500,
                Written = JSON (OObject [(''error'', OString ''Error creating user'')])\<rparr>
         | Inr u \<Rightarrow>
             fst (createUserHandler lib q cfg r) =
               \<lparr>Header_ContentType = Some ''application/json'', StatusCode = 201,
                Written = JSON (OObject [(''id'', OUUID (database_User_ID u)),
                                         (''created_at'', OTime (database_User_CreatedAt u)),
                                         (''updated_at'', OTime (database_User_UpdatedAt u)),
                                         (''email'', OString (database_User_Email u))])\<rparr>))
   \<and> \<not> rejected_UserRequest lib (Value (JObject [(''email'', JString address)]))
   \<and> UserRequest_Email (fst (Decode_UserRequest lib (Value (JObject [(''email'', JString address)]))))
       = address
   \<and> \<not> rejected_UserRequest lib (Value (JObject []))
   \<and> UserRequest_Email (fst (Decode_UserRequest lib (Value (JObject [])))) = []
   \<and> (\<not> list_ex (email_string (CaseFold lib)) members \<longrightarrow>
        UserRequest_Email (fst (Decode_UserRequest lib (Value (JObject members)))) = [])
   \<and> (fieldMatches (CaseFold lib) key ''email''
        \<and> \<not> list_ex (email_string (CaseFold lib)) after \<longrightarrow>
        UserRequest_Email (fst (Decode_UserRequest lib
           (Value (JObject (before @ (key, JString address) # after))))) = address)
   \<and> (\<not> list_ex (\<lambda>m. fieldMatches (CaseFold lib) (fst m) ''email'') members \<longrightarrow>
        \<not> rejected_UserRequest lib (Value (JObject members)))
   \<and> Decode_UserRequest lib (Value JNull) = (\<lparr>UserRequest_Email = []\<rparr>, None)
   \<and> \<not> rejected_UserRequest lib (Value JNull)"
proof -
  have "rejected_UserRequest lib (Body r) \<Longrightarrow>
      createUserHandler lib q cfg r =
        (\<lparr>Header_ContentType = Some ''application/json'', StatusCode = 400,
          Written = JSON (OObject [(''error'', OString ''Invalid request payload'')])\<rparr>, cfg)"
    by (simp add: createUserHandler_rejected respondWithError_eq)
  moreover have "\<not> rejected_UserRequest lib (Body r) \<Longrightarrow>
        (case fst (CreateUser q (db cfg)
                     \<lparr>CreateUserParams_ID = uuid_New r,
                      CreateUserParams_Email =
                        UserRequest_Email (fst (Decode_UserRequest lib (Body r))),
                      CreateUserParams_CreatedAt = time_Now_1 r,
                      CreateUserParams_UpdatedAt = time_Now_2 r\<rparr>) of
           Inl err \<Rightarrow>
             fst (createUserHandler lib q cfg r) =
               \<lparr>Header_ContentType = Some ''application/json'', StatusCode = 500,
                Written = JSON (OObject [(''error'', OString ''Error creating user'')])\<rparr>
         | Inr u \<Rightarrow>
             fst (createUserHandler lib q cfg r) =
               \<lparr>Header_ContentType = Some ''application/json'', StatusCode = 201,
                Written = JSON (OObject [(''id'', OUUID (database_User_ID u)),
                                         (''created_at'', OTime (database_User_CreatedAt u)),
                                         (''updated_at'', OTime (database_User_UpdatedAt u)),
                                         (''email'', OString (database_User_Email u))])\<rparr>)"
    by (simp add: createUserHandler_accepted respondWithError_eq split: prod.splits sum.splits)
  moreover have "\<not> rejected_UserRequest lib (Value (JObject [(''email'', JString address)]))"
    "\<not> rejected_UserRequest lib (Value (JObject []))"
    by (simp_all add: rejected_UserRequest_def)
  moreover have
    "UserRequest_Email (fst (Decode_UserRequest lib (Value (JObject [(''email'', JString address)]))))
       = address"
    "UserRequest_Email (fst (Decode_UserRequest lib (Value (JObject [])))) = []"
    by (simp_all add: Decode_UserRequest_def fieldMatches_def)
  moreover have "UserRequest_Email (fst (Decode_UserRequest lib (Value (JObject members)))) = []"
    if "\<not> list_ex (email_string (CaseFold lib)) members"
    using that by (simp add: Decode_UserRequest_def object_UserRequest_email_none)
  moreover have "UserRequest_Email (fst (Decode_UserRequest lib
           (Value (JObject (before @ (key, JString address) # after))))) = address"
    if "fieldMatches (CaseFold lib) key ''email''"
      and "\<not> list_ex (email_string (CaseFold lib)) after"
    using that by (simp add: Decode_UserRequest_def object_UserRequest_email_last)
  moreover have "\<not> rejected_UserRequest lib (Value (JObject members))"
    if "\<not> list_ex (\<lambda>m. fieldMatches (CaseFold lib) (fst m) ''email'') members"
    using that by (auto simp: rejected_UserRequest_def list_ex_iff)
  moreover have "Decode_UserRequest lib (Value JNull) = (\<lparr>UserRequest_Email = []\<rparr>, None)"
    "\<not> rejected_UserRequest lib (Value JNull)"
    by (simp_all add: Decode_UserRequest_def rejected_UserRequest_def)
  ultimately show ?thesis by blast
qed

text \<open>
  A body that is not JSON; an envelope with an address, on a store that works and on one
  that does not; an envelope with a name before the address, one with a name only, and
  \<open>null\<close>.
\<close>

theorem C6_createUserHandler_outcomes_witness:
  "rejected_UserRequest testLibrary (Body (testRequest POST_api_users ''/api/users'' NotJSON))
   \<and> StatusCode (fst (createUserHandler testLibrary memQueries (testConfig ''dev'')
                        (testRequest POST_api_users ''/api/users'' NotJSON))) = 400
   \<and> \<not> rejected_UserRequest testLibrary
          (Body (testRequest POST_api_users ''/api/users''
                   (Value (JObject [(''email'', JString ''lane@example.com'')]))))
   \<and> fst (createUserHandler testLibrary memQueries (testConfig ''dev'')
            (testRequest POST_api_users ''/api/users''
               (Value (JObject [(''email'', JString ''lane@example.com'')]))))
       = \<lparr>Header_ContentType = Some ''application/json'', StatusCode = 201,
          Written = JSON (OObject [(''id'', OUUID 7), (''created_at'', OTime 1000),
                                   (''updated_at'', OTime 1001),
                                   (''email'', OString ''lane@example.com'')])\<rparr>
   \<and> StatusCode (fst (createUserHandler testLibrary downQueries (testConfig ''dev'')
            (testRequest POST_api_users ''/api/users''
               (Value (JObject [(''email'', JString ''lane@example.com'')]))))) = 500
   \<and> UserRequest_Email (fst (Decode_UserRequest testLibrary
          (Value (JObject [(''name'', JString ''Lane''),
                           (''email'', JString ''lane@example.com'')])))) = ''lane@example.com''
   \<and> \<not> rejected_UserRequest testLibrary (Value (JObject [(''name'', JString ''Lane'')]))
   \<and> UserRequest_Email (fst (Decode_UserRequest testLibrary
          (Value (JObject [(''name'', JString ''Lane'')])))) = []
   \<and> fst (createUserHandler testLibrary memQueries (testConfig ''dev'')
            (testRequest POST_api_users ''/api/users'' (Value JNull)))
       = \<lparr>Header_ContentType = Some ''application/json'', StatusCode = 201,
          Written = JSON (OObject [(''id'', OUUID 7), (''created_at'', OTime 1000),
                                   (''updated_at'', OTime 1001), (''email'', OString [])])\<rparr>"
proof -
  let ?bad = "testRequest POST_api_users ''/api/users'' NotJSON"
  let ?good = "testRequest POST_api_users ''/api/users''
                 (Value (JObject [(''email'', JString ''lane@example.com'')]))"
  have b: "rejected_UserRequest testLibrary (Body ?bad)"
    by (simp add: rejected_UserRequest_def testRequest_def)
  have g: "\<not> rejected_UserRequest testLibrary (Body ?good)"
    by (simp add: rejected_UserRequest_def testRequest_def)
  have e: "UserRequest_Email (fst (Decode_UserRequest testLibrary (Body ?good))) = ''lane@example.com''"
    by (simp add: Decode_UserRequest_def testRequest_def fieldMatches_def)
  have n: "uuid_New ?good = 7" "time_Now_1 ?good = 1000" "time_Now_2 ?good = 1001"
    by (simp_all add: testRequest_def)
  from C6_createUserHandler_outcomes [of testLibrary ?bad memQueries "testConfig ''dev''"] b
  have 1: "StatusCode (fst (createUserHandler testLibrary memQueries (testConfig ''dev'') ?bad)) = 400"
    by simp
  from C6_createUserHandler_outcomes [of testLibrary ?good memQueries "testConfig ''dev''"] g
  have 2: "fst (createUserHandler testLibrary memQueries (testConfig ''dev'') ?good)
       = \<lparr>Header_ContentType = Some ''application/json'', StatusCode = 201,
          Written = JSON (OObject [(''id'', OUUID 7), (''created_at'', OTime 1000),
                                   (''updated_at'', OTime 1001),
                                   (''email'', OString ''lane@example.com'')])\<rparr>"
    unfolding e n by (simp add: memQueries_def Let_def)
  from C6_createUserHandler_outcomes [of testLibrary ?good downQueries "testConfig ''dev''"] g
  have 3: "StatusCode (fst (createUserHandler testLibrary downQueries (testConfig ''dev'') ?good)) = 500"
    unfolding e n by (simp add: downQueries_def)
  let ?null = "testRequest POST_api_users ''/api/users'' (Value JNull)"
  have nn: "uuid_New ?null = 7" "time_Now_1 ?null = 1000" "time_Now_2 ?null = 1001"
    "Body ?null = Value JNull"
    by (simp_all add: testRequest_def)
  have m: "fieldMatches (CaseFold testLibrary) ''email'' ''email''"
    by (rule fieldMatches_refl)
  have nm: "\<not> list_ex (email_string (CaseFold testLibrary)) [(''name'', JString ''Lane'')]"
    "\<not> list_ex (\<lambda>m. fieldMatches (CaseFold testLibrary) (fst m) ''email'')
          [(''name'', JString ''Lane'')]"
    "\<not> list_ex (email_string (CaseFold testLibrary)) []"
    by (simp_all add: email_string_def not_fieldMatches_name_email)
  from C6_createUserHandler_outcomes [where lib = testLibrary and key = "''email''"
      and before = "[(''name'', JString ''Lane'')]" and after = "[]"
      and address = "''lane@example.com''" and r = ?null and q = memQueries
      and cfg = "testConfig ''dev''" and members = "[]"] m nm(3)
  have 4: "UserRequest_Email (fst (Decode_UserRequest testLibrary
          (Value (JObject [(''name'', JString ''Lane''),
                           (''email'', JString ''lane@example.com'')])))) = ''lane@example.com''"
    by simp
  from C6_createUserHandler_outcomes [where lib = testLibrary
      and members = "[(''name'', JString ''Lane'')]" and r = ?null and q = memQueries
      and cfg = "testConfig ''dev''" and key = "''email''" and before = "[]" and after = "[]"
      and address = "[]"] nm
  have 5: "\<not> rejected_UserRequest testLibrary (Value (JObject [(''name'', JString ''Lane'')]))"
    and 6: "UserRequest_Email (fst (Decode_UserRequest testLibrary
          (Value (JObject [(''name'', JString ''Lane'')])))) = []"
    by blast+
  have un: "\<not> rejected_UserRequest testLibrary (Body ?null)"
    "UserRequest_Email (fst (Decode_UserRequest testLibrary (Body ?null))) = []"
    using C6_createUserHandler_outcomes [where lib = testLibrary and r = ?null
        and q = memQueries and cfg = "testConfig ''dev''" and members = "[]"
        and key = "''email''" and before = "[]" and after = "[]" and address = "[]"]
    by (simp_all add: nn)
  from C6_createUserHandler_outcomes [where lib = testLibrary and r = ?null and q = memQueries
      and cfg = "testConfig ''dev''" and members = "[]" and key = "''email''"
      and before = "[]" and after = "[]" and address = "[]"] un(1)
  have 7: "fst (createUserHandler testLibrary memQueries (testConfig ''dev'') ?null)
       = \<lparr>Header_ContentType = Some ''application/json'', StatusCode = 201,
          Written = JSON (OObject [(''id'', OUUID 7), (''created_at'', OTime 1000),
                                   (''updated_at'', OTime 1001), (''email'', OString [])])\<rparr>"
    unfolding un(2) nn by (simp add: memQueries_def Let_def)
  from b g 1 2 3 4 5 6 7 show ?thesis by blast
qed

text \<open>
  The claim as it was stated fails for the body \<open>{}\<close>: it is not an object containing an
  email field, and the answer is 201, for a user with the empty address.
\<close>

theorem C6_empty_object_is_accepted:
  "\<not> envelope_has_email (Value (JObject []))
   \<and> fst (createUserHandler testLibrary memQueries (testConfig ''dev'')
            (testRequest POST_api_users ''/api/users'' (Value (JObject []))))
       = \<lparr>Header_ContentType = Some ''application/json'', StatusCode = 201,
          Written = JSON (OObject [(''id'', OUUID 7), (''created_at'', OTime 1000),
                                   (''updated_at'', OTime 1001), (''email'', OString [])])\<rparr>"
  by (simp add: envelope_has_email_def createUserHandler_def Decode_UserRequest_def
      testRequest_def testConfig_def memQueries_def db_call_def effect_def respondWithJSON_def
      Let_def)

subsection \<open>C7\<close>

text \<open>
  C7. A body none of whose space-delimited elements is a denylisted word in any letter
  case (the lower-case form of no element is on the list) is returned as it is. No bound
  on the length is needed, so this holds for the bodies of at most 140 characters, and it
  holds with repeated, leading and trailing spaces.
\<close>

theorem C7_cleanProfanity_identity_without_profanity:
  assumes "\<forall>tok\<in>set (Split body CHR '' ''). ToLower tbl tok \<notin> set profaneWords"
  shows "cleanProfanity tbl body = body"
  using assms by (rule cleanProfanity_id)

text \<open>A body with leading, doubled and trailing spaces and the word kerfuffled.\<close>

theorem C7_cleanProfanity_identity_without_profanity_witness:
  "Split ''  kerfuffled  Hello '' CHR '' '' = [[], [], ''kerfuffled'', [], ''Hello'', []]
   \<and> ToLower (\<lambda>r. r) [] \<notin> set profaneWords
   \<and> ToLower (\<lambda>r. r) ''kerfuffled'' \<notin> set profaneWords
   \<and> ToLower (\<lambda>r. r) ''Hello'' \<notin> set profaneWords
   \<and> length ''  kerfuffled  Hello '' \<le> 140
   \<and> cleanProfanity (\<lambda>r. r) ''  kerfuffled  Hello '' = ''  kerfuffled  Hello ''"
proof -
  have sp: "Split ''  kerfuffled  Hello '' CHR '' '' = [[], [], ''kerfuffled'', [], ''Hello'', []]"
    by code_simp
  have lw: "ToLower (\<lambda>r. r) [] \<notin> set profaneWords"
    "ToLower (\<lambda>r. r) ''kerfuffled'' \<notin> set profaneWords"
    "ToLower (\<lambda>r. r) ''Hello'' \<notin> set profaneWords"
    by code_simp+
  have "\<forall>tok\<in>set (Split ''  kerfuffled  Hello '' CHR '' ''). ToLower (\<lambda>r. r) tok \<notin> set profaneWords"
    unfolding sp using lw by simp
  then have "cleanProfanity (\<lambda>r. r) ''  kerfuffled  Hello '' = ''  kerfuffled  Hello ''"
    by (rule C7_cleanProfanity_identity_without_profanity)
  with sp lw show ?thesis by simp
qed

subsection \<open>C8\<close>

text \<open>
  C8. Moderating twice is moderating once: the mask is not a denylisted word, it holds no
  space, and the elements that were kept are compared again with the same result.
\<close>

theorem C8_cleanProfanity_idempotent:
  "cleanProfanity tbl (cleanProfanity tbl s) = cleanProfanity tbl s"
  by (rule cleanProfanity_idem)

subsection \<open>C9\<close>

text \<open>
  C9. The moderated text is never longer than the input. An element that is masked has 6
  to 9 characters (and at least as many bytes), the mask has 4. So whenever
  \<open>createChirpHandler\<close> sends \<open>CreateChirp\<close> to the store, the body it passes has at most
  140 bytes; and a request that decodes to a body of at most 140 is moderated and then
  sent, with the moderated body.
\<close>

theorem C9_moderation_never_lengthens:
  "length (cleanProfanity tbl body) \<le> length body
   \<and> (ToLower tbl tok \<in> set profaneWords \<longrightarrow>
        6 \<le> RuneCountInString tok \<and> RuneCountInString tok \<le> 9
        \<and> length ''****'' \<le> length tok)
   \<and> (Db_CreateChirp params
          \<in> set (drop (length (trace cfg)) (trace (snd (createChirpHandler lib q cfg r)))) \<longrightarrow>
        length (CreateChirpParams_Body params) \<le> 140)
   \<and> (snd (Decode_CreateChirpRequest lib (Body r)) = None
        \<and> length (CreateChirpRequest_Body (fst (Decode_CreateChirpRequest lib (Body r)))) \<le> 140 \<longrightarrow>
        take 2 (drop (length (trace cfg)) (trace (snd (createChirpHandler lib q cfg r)))) =
          [Call_cleanProfanity (CreateChirpRequest_Body (fst (Decode_CreateChirpRequest lib (Body r)))),
           Db_CreateChirp
             \<lparr>CreateChirpParams_ID = uuid_New r,
              CreateChirpParams_CreatedAt = time_Now_1 r,
              CreateChirpParams_UpdatedAt = time_Now_2 r,
              CreateChirpParams_Body =
                cleanProfanity (CaseLower lib)
                  (CreateChirpRequest_Body (fst (Decode_CreateChirpRequest lib (Body r)))),
              CreateChirpParams_UserID =
                CreateChirpRequest_UserID (fst (Decode_CreateChirpRequest lib (Body r)))\<rparr>])"
proof -
  have 1: "length (cleanProfanity tbl body) \<le> length body"
    by (rule length_cleanProfanity)
  have 2: "ToLower tbl tok \<in> set profaneWords \<Longrightarrow>
        6 \<le> RuneCountInString tok \<and> RuneCountInString tok \<le> 9
        \<and> length ''****'' \<le> length tok"
    using profane_token_runes [of tbl tok] profane_token_length [of tbl tok] by simp
  have 3: "length (CreateChirpParams_Body params) \<le> 140"
    if "Db_CreateChirp params
          \<in> set (drop (length (trace cfg)) (trace (snd (createChirpHandler lib q cfg r))))"
  proof (cases "Decode_CreateChirpRequest lib (Body r)")
    case (Pair req err)
    have le: "length (cleanProfanity (CaseLower lib) (CreateChirpRequest_Body req))
                \<le> length (CreateChirpRequest_Body req)"
      by (rule length_cleanProfanity)
    from that Pair le show ?thesis
      by (auto simp: createChirpHandler_trace Let_def split: option.splits if_splits sum.splits)
  qed
  have 4: "take 2 (drop (length (trace cfg)) (trace (snd (createChirpHandler lib q cfg r)))) =
          [Call_cleanProfanity (CreateChirpRequest_Body (fst (Decode_CreateChirpRequest lib (Body r)))),
           Db_CreateChirp
             \<lparr>CreateChirpParams_ID = uuid_New r,
              CreateChirpParams_CreatedAt = time_Now_1 r,
              CreateChirpParams_UpdatedAt = time_Now_2 r,
              CreateChirpParams_Body =
                cleanProfanity (CaseLower lib)
                  (CreateChirpRequest_Body (fst (Decode_CreateChirpRequest lib (Body r)))),
              CreateChirpParams_UserID =
                CreateChirpRequest_UserID (fst (Decode_CreateChirpRequest lib (Body r)))\<rparr>]"
    if "snd (Decode_CreateChirpRequest lib (Body r)) = None"
      and "length (CreateChirpRequest_Body (fst (Decode_CreateChirpRequest lib (Body r)))) \<le> 140"
    using that
    by (cases "Decode_CreateChirpRequest lib (Body r)")
       (simp add: createChirpHandler_trace Let_def)
  from 1 2 3 4 show ?thesis by blast
qed

text \<open>
  The word with the Kelvin sign is masked under the case table of the examples; and a
  chirp "my Kerfuffle" reaches the store as "my ****".
\<close>

theorem C9_moderation_never_lengthens_witness:
  "ToLower (CaseLower testLibrary) kelvinWord \<in> set profaneWords
   \<and> RuneCountInString kelvinWord = 9 \<and> length kelvinWord = 11
   \<and> length (cleanProfanity (CaseLower testLibrary) (''a '' @ kelvinWord)) \<le> 13
   \<and> trace (snd (createChirpHandler testLibrary memQueries (testConfig ''dev'')
        (testRequest POST_api_chirps ''/api/chirps''
           (Value (JObject [(''body'', JString ''my Kerfuffle''),
                            (''user_id'', JString ''6ba7b810-9dad-11d1-80b4-00c04fd430c8'')])))))
       = [Call_cleanProfanity ''my Kerfuffle'',
          Db_CreateChirp \<lparr>CreateChirpParams_ID = 7, CreateChirpParams_CreatedAt = 1000,
                          CreateChirpParams_UpdatedAt = 1001, CreateChirpParams_Body = ''my ****'',
                          CreateChirpParams_UserID = 0x6ba7b8109dad11d180b400c04fd430c8\<rparr>]
   \<and> length ''my ****'' \<le> (140::nat)"
proof -
  let ?r = "testRequest POST_api_chirps ''/api/chirps''
           (Value (JObject [(''body'', JString ''my Kerfuffle''),
                            (''user_id'', JString ''6ba7b810-9dad-11d1-80b4-00c04fd430c8'')]))"
  let ?p = "\<lparr>CreateChirpParams_ID = 7, CreateChirpParams_CreatedAt = 1000,
             CreateChirpParams_UpdatedAt = 1001, CreateChirpParams_Body = ''my ****'',
             CreateChirpParams_UserID = 0x6ba7b8109dad11d180b400c04fd430c8\<rparr>"
  have k: "ToLower (CaseLower testLibrary) kelvinWord \<in> set profaneWords"
    by (simp add: ToLower_kelvinWord profaneWords_def)
  have u: "uuid_Parse testLibrary ''6ba7b810-9dad-11d1-80b4-00c04fd430c8''
             = Some 0x6ba7b8109dad11d180b400c04fd430c8"
    by (simp add: testLibrary_def)
  have d: "Decode_CreateChirpRequest testLibrary (Body ?r) =
     (\<lparr>CreateChirpRequest_Body = ''my Kerfuffle'',
       CreateChirpRequest_UserID = 0x6ba7b8109dad11d180b400c04fd430c8\<rparr>, None)"
    by (simp add: Decode_CreateChirpRequest_def testRequest_def Let_def fieldMatches_refl
        fieldMatches_user_id_body u)
  have c: "cleanProfanity (CaseLower testLibrary) ''my Kerfuffle'' = ''my ****''"
    by code_simp
  have t: "trace (snd (createChirpHandler testLibrary memQueries (testConfig ''dev'') ?r))
             = [Call_cleanProfanity ''my Kerfuffle'', Db_CreateChirp ?p]"
    by (simp add: createChirpHandler_trace d c Let_def)
       (simp add: testRequest_def testConfig_def memQueries_def Let_def)
  note inst = C9_moderation_never_lengthens [where tbl = "CaseLower testLibrary"
      and body = "''a '' @ kelvinWord" and tok = kelvinWord and params = ?p
      and cfg = "testConfig ''dev''" and lib = testLibrary and q = memQueries and r = ?r]
  from inst k have 1: "6 \<le> RuneCountInString kelvinWord \<and> RuneCountInString kelvinWord \<le> 9"
    by blast
  from inst have 2: "length (cleanProfanity (CaseLower testLibrary) (''a '' @ kelvinWord))
                      \<le> length (''a '' @ kelvinWord)"
    by blast
  have "Db_CreateChirp ?p \<in> set (drop (length (trace (testConfig ''dev'')))
          (trace (snd (createChirpHandler testLibrary memQueries (testConfig ''dev'') ?r))))"
    unfolding t by (simp add: testConfig_def)
  with inst have 3: "length (CreateChirpParams_Body ?p) \<le> 140" by blast
  from k RuneCountInString_kelvinWord 2 t 3 show ?thesis by (simp add: kelvinWord_def)
qed

subsection \<open>C10\<close>



end
